theory Spec2Isabelle
  imports Main "HOL-Library.AList" "HOL-Library.Multiset"
begin

section \<open>Go strings\<close>

text \<open>
  Go strings are byte sequences; they are modelled as \<open>string\<close> (a list of 8-bit
  characters), a non-ASCII rune being the bytes of its UTF-8 encoding. A rune is its
  code point.
\<close>

type_synonym rune = nat

definition RuneError :: rune where
  "RuneError = 0xFFFD"

definition byte :: "char \<Rightarrow> nat" where
  "byte c = of_char c"

definition in_range :: "char \<Rightarrow> nat \<Rightarrow> nat \<Rightarrow> bool" where
  "in_range c lo hi = (lo \<le> byte c \<and> byte c \<le> hi)"

text \<open>
  \<^verbatim>\<open>utf8.DecodeRune\<close>: the first rune of the bytes and its width. A byte that starts no
  well-formed encoding (a stray continuation byte, an overlong form, a surrogate, a
  truncated sequence) is \<^verbatim>\<open>RuneError\<close> of width 1.
\<close>

fun DecodeRune :: "string \<Rightarrow> rune \<times> nat" where
  "DecodeRune [] = (RuneError, 0)"
| "DecodeRune (c0 # cs) =
     (let b0 = byte c0 in
      if b0 < 0x80 then (b0, 1)
      else if 0xC2 \<le> b0 \<and> b0 \<le> 0xDF then
        (case cs of
           c1 # _ \<Rightarrow>
             if in_range c1 0x80 0xBF
             then ((b0 mod 0x20) * 0x40 + byte c1 mod 0x40, 2)
             else (RuneError, 1)
         | _ \<Rightarrow> (RuneError, 1))
      else if 0xE0 \<le> b0 \<and> b0 \<le> 0xEF then
        (case cs of
           c1 # c2 # _ \<Rightarrow>
             if in_range c1 (if b0 = 0xE0 then 0xA0 else 0x80) (if b0 = 0xED then 0x9F else 0xBF)
                \<and> in_range c2 0x80 0xBF
             then ((b0 mod 0x10) * 0x1000 + (byte c1 mod 0x40) * 0x40 + byte c2 mod 0x40, 3)
             else (RuneError, 1)
         | _ \<Rightarrow> (RuneError, 1))
      else if 0xF0 \<le> b0 \<and> b0 \<le> 0xF4 then
        (case cs of
           c1 # c2 # c3 # _ \<Rightarrow>
             if in_range c1 (if b0 = 0xF0 then 0x90 else 0x80) (if b0 = 0xF4 then 0x8F else 0xBF)
                \<and> in_range c2 0x80 0xBF \<and> in_range c3 0x80 0xBF
             then ((b0 mod 0x08) * 0x40000 + (byte c1 mod 0x40) * 0x1000
                   + (byte c2 mod 0x40) * 0x40 + byte c3 mod 0x40, 4)
             else (RuneError, 1)
         | _ \<Rightarrow> (RuneError, 1))
      else (RuneError, 1))"

text \<open>\<^verbatim>\<open>utf8.EncodeRune\<close>; a surrogate or a rune out of range is encoded as \<^verbatim>\<open>RuneError\<close>.\<close>

definition EncodeRune :: "rune \<Rightarrow> string" where
  "EncodeRune r =
     (if r < 0x80 then [char_of r]
      else if r < 0x800 then [char_of (0xC0 + r div 0x40), char_of (0x80 + r mod 0x40)]
      else if r > 0x10FFFF \<or> (0xD800 \<le> r \<and> r \<le> 0xDFFF) then [CHR 0xEF, CHR 0xBF, CHR 0xBD]
      else if r < 0x10000
      then [char_of (0xE0 + r div 0x1000), char_of (0x80 + (r div 0x40) mod 0x40),
            char_of (0x80 + r mod 0x40)]
      else [char_of (0xF0 + r div 0x40000), char_of (0x80 + (r div 0x1000) mod 0x40),
            char_of (0x80 + (r div 0x40) mod 0x40), char_of (0x80 + r mod 0x40)])"

text \<open>\<^verbatim>\<open>unicode.IsSpace\<close>: the Latin-1 spaces, and the other runes of \<^verbatim>\<open>White_Space\<close>.\<close>

definition IsSpace :: "rune \<Rightarrow> bool" where
  "IsSpace r =
     (if r \<le> 0xFF
      then r \<in> {0x09, 0x0A, 0x0B, 0x0C, 0x0D, 0x20, 0x85, 0xA0}
      else r = 0x1680 \<or> (0x2000 \<le> r \<and> r \<le> 0x200A) \<or> r = 0x2028 \<or> r = 0x2029
           \<or> r = 0x202F \<or> r = 0x205F \<or> r = 0x3000)"

text \<open>
  \<^verbatim>\<open>strings.FieldsFunc\<close>: the loop over the runes of the string. \<open>start\<close> is the field
  being read (\<open>None\<close> where the source has \<^verbatim>\<open>start < 0\<close>). The rune at the head is the
  byte \<open>c\<close> and the next \<open>n - 1\<close> bytes, \<open>n\<close> being its width.
\<close>

fun FieldsFunc :: "(rune \<Rightarrow> bool) \<Rightarrow> string option \<Rightarrow> string \<Rightarrow> string list" where
  "FieldsFunc f start [] = (case start of None \<Rightarrow> [] | Some field \<Rightarrow> [field])"
| "FieldsFunc f start (c # cs) =
     (let (r, n) = DecodeRune (c # cs) in
      if f r
      then (case start of
              None \<Rightarrow> FieldsFunc f None (drop (n - 1) cs)
            | Some field \<Rightarrow> field # FieldsFunc f None (drop (n - 1) cs))
      else (case start of
              None \<Rightarrow> FieldsFunc f (Some (c # take (n - 1) cs)) (drop (n - 1) cs)
            | Some field \<Rightarrow> FieldsFunc f (Some (field @ c # take (n - 1) cs)) (drop (n - 1) cs)))"

text \<open>
  \<^verbatim>\<open>strings.Fields\<close> splits around runs of white space (its ASCII fast path computes the
  same fields), \<^verbatim>\<open>strings.HasPrefix\<close> and \<^verbatim>\<open>strings.TrimPrefix\<close>.
\<close>

definition Fields :: "string \<Rightarrow> string list" where
  "Fields s = FieldsFunc IsSpace None s"

definition HasPrefix :: "string \<Rightarrow> string \<Rightarrow> bool" where
  "HasPrefix s p = (length p \<le> length s \<and> take (length p) s = p)"

definition TrimPrefix :: "string \<Rightarrow> string \<Rightarrow> string" where
  "TrimPrefix s p = (if HasPrefix s p then drop (length p) s else s)"

section \<open>Configuration loading\<close>

text \<open>The constants of \<^verbatim>\<open>main.go\<close>.\<close>

definition Prefix :: string where
  "Prefix = ''!''"

definition BibleAPIURL :: string where
  "BibleAPIURL = ''https://bible-api.com/data/web/random''"

definition EnvFileName :: string where
  "EnvFileName = ''.env''"

record AppConfig =
  DiscordToken :: string
  Debug :: bool

text \<open>
  The two errors \<^verbatim>\<open>loadConfiguration\<close> builds with \<^verbatim>\<open>fmt.Errorf\<close>: the one wrapping
  the error of \<^verbatim>\<open>godotenv.Load\<close> (file name and cause), and the one for an empty token.
\<close>

datatype config_error =
  EnvFileLoadError string string
| TokenRequired string

text \<open>
  What \<^verbatim>\<open>loadConfiguration\<close> reads of the outside: the process environment, a map from
  variable names to values, and the result of reading and parsing the settings file with
  the given name (an error, or the variables the file defines).
\<close>

record config_world =
  environ :: "string \<rightharpoonup> string"
  read_env_file :: "string \<Rightarrow> string + (string \<rightharpoonup> string)"

text \<open>\<^verbatim>\<open>os.Getenv\<close>: the value of the variable, empty when it is not set.\<close>

definition Getenv :: "(string \<rightharpoonup> string) \<Rightarrow> string \<Rightarrow> string" where
  "Getenv env k = (case env k of None \<Rightarrow> [] | Some v \<Rightarrow> v)"

text \<open>
  \<^verbatim>\<open>godotenv.Load\<close> of one file: the error of reading the file, or the environment in
  which every variable of the file that the process does not already have is set (a
  variable the process has keeps its value, also an empty one).
\<close>

definition godotenv_Load :: "config_world \<Rightarrow> string \<Rightarrow> string + (string \<rightharpoonup> string)" where
  "godotenv_Load w name =
     (case read_env_file w name of
        Inl err \<Rightarrow> Inl err
      | Inr envMap \<Rightarrow> Inr (envMap ++ environ w))"

text \<open>
  \<^verbatim>\<open>loadConfiguration\<close>, with the process environment it leaves behind as the second
  component of the result.
\<close>

definition loadConfiguration :: "config_world \<Rightarrow> (config_error + AppConfig) \<times> (string \<rightharpoonup> string)" where
  "loadConfiguration w =
     (case godotenv_Load w EnvFileName of
        Inl err \<Rightarrow> (Inl (EnvFileLoadError EnvFileName err), environ w)
      | Inr env \<Rightarrow>
          (let config = \<lparr> DiscordToken = Getenv env ''DISCORD_BOT_TOKEN'',
                          Debug = (Getenv env ''DEBUG'' = ''true'') \<rparr>
           in if DiscordToken config = []
              then (Inl (TokenRequired EnvFileName), env)
              else (Inr config, env)))"

text \<open>
  The value of a setting at startup, as the spec words it: the value the process
  environment has for it; when the environment does not have the variable, the value
  the settings file gives it; else empty.
\<close>

definition setting :: "config_world \<Rightarrow> (string \<rightharpoonup> string) \<Rightarrow> string \<Rightarrow> string" where
  "setting w envMap k =
     (case environ w k of
        Some v \<Rightarrow> v
      | None \<Rightarrow> (case envMap k of Some v \<Rightarrow> v | None \<Rightarrow> []))"

section \<open>Decoding the provider's JSON\<close>

text \<open>
  \<^verbatim>\<open>getBibleVerse\<close> decodes the body with \<^verbatim>\<open>json.Unmarshal\<close> into a \<^verbatim>\<open>BibleVerse\<close>, whose
  two fields are of type \<^verbatim>\<open>map[string]interface{}\<close>. This section models that decoding:
  the syntax \<^verbatim>\<open>encoding/json\<close> accepts, the values it builds for \<^verbatim>\<open>interface{}\<close>, and the
  way it fills the struct.

  A JSON value. A number is kept as its literal: Go stores the \<^verbatim>\<open>float64\<close> nearest to it.
  An object is the list of its members; as a Go map its keys are distinct.
\<close>

datatype json =
  JNull
| JBool bool
| JNumber string
| JString string
| JArray "json list"
| JObject "(string \<times> json) list"

datatype token =
  TBeginObject | TEndObject | TBeginArray | TEndArray | TColon | TComma | TLiteral json

definition isSpace :: "char \<Rightarrow> bool" where
  "isSpace c = (c = CHR '' '' \<or> c = CHR 0x09 \<or> c = CHR 0x0D \<or> c = CHR 0x0A)"

definition isDigit :: "char \<Rightarrow> bool" where
  "isDigit c = in_range c 0x30 0x39"

definition hexValue :: "char \<Rightarrow> nat option" where
  "hexValue c =
     (if in_range c 0x30 0x39 then Some (byte c - 0x30)
      else if in_range c 0x61 0x66 then Some (byte c - 0x61 + 10)
      else if in_range c 0x41 0x46 then Some (byte c - 0x41 + 10)
      else None)"

text \<open>\<^verbatim>\<open>getu4\<close>: the code unit of a \<^verbatim>\<open>\uXXXX\<close> escape at the head of the bytes.\<close>

fun getu4 :: "string \<Rightarrow> rune option" where
  "getu4 (c0 # c1 # h0 # h1 # h2 # h3 # _) =
     (if c0 = CHR 0x5C \<and> c1 = CHR ''u''
      then (case (hexValue h0, hexValue h1, hexValue h2, hexValue h3) of
              (Some a, Some b, Some c, Some d) \<Rightarrow> Some (a * 0x1000 + b * 0x100 + c * 0x10 + d)
            | _ \<Rightarrow> None)
      else None)"
| "getu4 _ = None"

definition IsSurrogate :: "rune \<Rightarrow> bool" where
  "IsSurrogate r = (0xD800 \<le> r \<and> r < 0xE000)"

text \<open>\<^verbatim>\<open>utf16.DecodeRune\<close> of a surrogate pair, the second half absent when no escape follows.\<close>

definition utf16_DecodeRune :: "rune \<Rightarrow> rune option \<Rightarrow> rune" where
  "utf16_DecodeRune r1 r2 =
     (case r2 of
        None \<Rightarrow> RuneError
      | Some r2 \<Rightarrow>
          if 0xD800 \<le> r1 \<and> r1 < 0xDC00 \<and> 0xDC00 \<le> r2 \<and> r2 < 0xE000
          then (r1 - 0xD800) * 0x400 + (r2 - 0xDC00) + 0x10000
          else RuneError)"

definition unescape :: "char \<Rightarrow> char option" where
  "unescape c =
     (if c = CHR 0x22 \<or> c = CHR 0x5C \<or> c = CHR ''/'' then Some c
      else if c = CHR ''b'' then Some (CHR 0x08)
      else if c = CHR ''f'' then Some (CHR 0x0C)
      else if c = CHR ''n'' then Some (CHR 0x0A)
      else if c = CHR ''r'' then Some (CHR 0x0D)
      else if c = CHR ''t'' then Some (CHR 0x09)
      else None)"

text \<open>
  A string literal, read after its opening quote: the unquoted bytes (as \<^verbatim>\<open>unquoteBytes\<close>
  builds them: escapes replaced, a surrogate pair combined, a lone surrogate and a byte
  that is not UTF-8 replaced by \<^verbatim>\<open>RuneError\<close>) and the input after the closing quote;
  \<open>None\<close> where the scanner rejects the literal (a control character, an unknown escape,
  no closing quote).
\<close>

fun scanString :: "string \<Rightarrow> string \<Rightarrow> (string \<times> string) option" where
  "scanString out [] = None"
| "scanString out (c # cs) =
     (if c = CHR 0x22 then Some (out, cs)
      else if byte c < 0x20 then None
      else if c = CHR 0x5C then
        (case cs of
           [] \<Rightarrow> None
         | e # es \<Rightarrow>
             if e = CHR ''u'' then
               (case getu4 (c # cs) of
                  None \<Rightarrow> None
                | Some rr \<Rightarrow>
                    if IsSurrogate rr then
                      (let dec = utf16_DecodeRune rr (getu4 (drop 4 es)) in
                       if dec \<noteq> RuneError
                       then scanString (out @ EncodeRune dec) (drop 10 es)
                       else scanString (out @ EncodeRune RuneError) (drop 4 es))
                    else scanString (out @ EncodeRune rr) (drop 4 es))
             else
               (case unescape e of
                  None \<Rightarrow> None
                | Some u \<Rightarrow> scanString (out @ [u]) es))
      else if byte c < 0x80 then scanString (out @ [c]) cs
      else (let (rr, size) = DecodeRune (c # cs)
            in scanString (out @ EncodeRune rr) (drop (size - 1) cs)))"

text \<open>
  A number literal: an optional minus, \<^verbatim>\<open>0\<close> or a digit string without leading zero, an
  optional fraction and an optional exponent, each needing a digit. The literal and the
  input after it.
\<close>

definition scanExponent :: "string \<Rightarrow> string \<Rightarrow> (string \<times> string) option" where
  "scanExponent lit s =
     (case s of
        [] \<Rightarrow> Some (lit, s)
      | e # r \<Rightarrow>
          if e = CHR ''e'' \<or> e = CHR ''E'' then
            (let sign = (case r of [] \<Rightarrow> [] | c # _ \<Rightarrow> if c = CHR ''+'' \<or> c = CHR ''-'' then [c] else []);
                 r1 = drop (length sign) r;
                 ds = takeWhile isDigit r1
             in if ds = [] then None else Some (lit @ e # sign @ ds, dropWhile isDigit r1))
          else Some (lit, s))"

definition scanFraction :: "string \<Rightarrow> string \<Rightarrow> (string \<times> string) option" where
  "scanFraction lit s =
     (case s of
        [] \<Rightarrow> Some (lit, s)
      | d # r \<Rightarrow>
          if d = CHR ''.'' then
            (let ds = takeWhile isDigit r
             in if ds = [] then None else scanExponent (lit @ d # ds) (dropWhile isDigit r))
          else scanExponent lit s)"

definition scanNumber :: "string \<Rightarrow> (string \<times> string) option" where
  "scanNumber s =
     (let sign = (case s of [] \<Rightarrow> [] | c # _ \<Rightarrow> if c = CHR ''-'' then [c] else []);
          s1 = drop (length sign) s
      in case s1 of
           [] \<Rightarrow> None
         | d # r \<Rightarrow>
             if d = CHR ''0'' then scanFraction (sign @ [d]) r
             else if isDigit d
             then scanFraction (sign @ d # takeWhile isDigit r) (dropWhile isDigit r)
             else None)"

text \<open>The rest of the input after a string or a number literal is shorter.\<close>

lemma scanString_length: "scanString out s = Some (t, rest) \<Longrightarrow> length rest < length s"
proof (induction out s rule: scanString.induct)
  case (1 out)
  then show ?case by simp
next
  case (2 out c cs)
  show ?case
  proof (cases "c = CHR 0x22 \<or> byte c < 0x20")
    case True
    with "2.prems" show ?thesis by (auto split: if_splits)
  next
    case False
    note nq = this
    show ?thesis
    proof (cases "c = CHR 0x5C")
      case True
      note bs = this
      show ?thesis
      proof (cases cs)
        case Nil
        with "2.prems" nq bs show ?thesis by simp
      next
        case (Cons e es)
        show ?thesis
        proof (cases "e = CHR ''u''")
          case True
          then obtain rr where rr: "getu4 (c # cs) = Some rr"
            using "2.prems" nq bs Cons by (auto split: option.splits)
          show ?thesis
          proof (cases "IsSurrogate rr")
            case True
            note sur = this
            show ?thesis
            proof (cases "utf16_DecodeRune rr (getu4 (drop 4 es)) \<noteq> RuneError")
              case True
              have "scanString (out @ EncodeRune (utf16_DecodeRune rr (getu4 (drop 4 es)))) (drop 10 es) = Some (t, rest)"
                using "2.prems" nq bs Cons \<open>e = CHR ''u''\<close> rr sur True by (simp add: Let_def)
              from "2.IH"(1)[OF _ _ _ Cons \<open>e = CHR ''u''\<close> rr sur refl True this] nq bs
              show ?thesis using Cons by simp
            next
              case False
              have "scanString (out @ EncodeRune RuneError) (drop 4 es) = Some (t, rest)"
                using "2.prems" nq bs Cons \<open>e = CHR ''u''\<close> rr sur False by (simp add: Let_def)
              from "2.IH"(2)[OF _ _ _ Cons \<open>e = CHR ''u''\<close> rr sur refl False this] nq bs
              show ?thesis using Cons by simp
            qed
          next
            case False
            have "scanString (out @ EncodeRune rr) (drop 4 es) = Some (t, rest)"
              using "2.prems" nq bs Cons \<open>e = CHR ''u''\<close> rr False by (simp add: Let_def)
            from "2.IH"(3)[OF _ _ _ Cons \<open>e = CHR ''u''\<close> rr False this] nq bs
            show ?thesis using Cons by simp
          qed
        next
          case False
          then obtain u where u: "unescape e = Some u"
            using "2.prems" nq bs Cons by (auto split: option.splits)
          have "scanString (out @ [u]) es = Some (t, rest)"
            using "2.prems" nq bs Cons False u by simp
          from "2.IH"(4)[OF _ _ _ Cons False u this] nq bs
          show ?thesis using Cons by simp
        qed
      qed
    next
      case False
      note nbs = this
      show ?thesis
      proof (cases "byte c < 0x80")
        case True
        have "scanString (out @ [c]) cs = Some (t, rest)"
          using "2.prems" nq nbs True by simp
        from "2.IH"(5)[OF _ _ _ True this] nq nbs show ?thesis by simp
      next
        case False
        obtain rr size where d: "DecodeRune (c # cs) = (rr, size)" by force
        have "scanString (out @ EncodeRune rr) (drop (size - 1) cs) = Some (t, rest)"
          using "2.prems" nq nbs False d by simp
        from "2.IH"(6)[OF _ _ _ False d[symmetric] refl this] nq nbs show ?thesis by simp
      qed
    qed
  qed
qed

lemma scanExponent_length: "scanExponent lit s = Some (t, rest) \<Longrightarrow> length rest \<le> length s"
proof (cases s)
  case Nil
  assume "scanExponent lit s = Some (t, rest)"
  with Nil show ?thesis by (simp add: scanExponent_def)
next
  case (Cons e r)
  assume a: "scanExponent lit s = Some (t, rest)"
  show ?thesis
  proof (cases "e = CHR ''e'' \<or> e = CHR ''E''")
    case False
    with a Cons show ?thesis by (auto simp: scanExponent_def)
  next
    case True
    from a Cons True obtain k where "rest = dropWhile isDigit (drop k r)"
      by (auto simp: scanExponent_def Let_def split: if_splits)
    moreover have "length (dropWhile isDigit (drop k r)) \<le> length (drop k r)"
      by (rule length_dropWhile_le)
    ultimately show ?thesis using Cons by simp
  qed
qed

lemma scanFraction_length: "scanFraction lit s = Some (t, rest) \<Longrightarrow> length rest \<le> length s"
proof (cases s)
  case Nil
  assume "scanFraction lit s = Some (t, rest)"
  with Nil show ?thesis by (simp add: scanFraction_def)
next
  case (Cons d r)
  assume a: "scanFraction lit s = Some (t, rest)"
  show ?thesis
  proof (cases "d = CHR ''.''")
    case False
    with a Cons have "scanExponent lit s = Some (t, rest)" by (simp add: scanFraction_def)
    then show ?thesis by (rule scanExponent_length)
  next
    case True
    with a Cons have "scanExponent (lit @ d # takeWhile isDigit r) (dropWhile isDigit r) = Some (t, rest)"
      by (auto simp: scanFraction_def Let_def split: if_splits)
    then have "length rest \<le> length (dropWhile isDigit r)" by (rule scanExponent_length)
    also have "\<dots> \<le> length r" by (rule length_dropWhile_le)
    finally show ?thesis using Cons by simp
  qed
qed

lemma scanNumber_length:
  assumes "scanNumber (c # cs) = Some (t, rest)"
  shows "length rest \<le> length cs"
proof (cases "c = CHR ''-''")
  case True
  note neg = this
  show ?thesis
  proof (cases cs)
    case Nil
    with assms neg show ?thesis by (simp add: scanNumber_def)
  next
    case (Cons d r)
    from assms neg Cons
    have "scanFraction [c, d] r = Some (t, rest)
          \<or> scanFraction (c # d # takeWhile isDigit r) (dropWhile isDigit r) = Some (t, rest)"
      by (auto simp: scanNumber_def Let_def split: if_splits)
    then have "length rest \<le> length r"
      using scanFraction_length length_dropWhile_le le_trans by blast
    with Cons show ?thesis by simp
  qed
next
  case False
  from assms False
  have "scanFraction [c] cs = Some (t, rest)
        \<or> scanFraction (c # takeWhile isDigit cs) (dropWhile isDigit cs) = Some (t, rest)"
    by (auto simp: scanNumber_def Let_def split: if_splits)
  then show ?thesis
    using scanFraction_length length_dropWhile_le le_trans by blast
qed

lemma scanString_shorter:
  "scanString out cs = Some x2 \<Longrightarrow> (x, y) = x2 \<Longrightarrow> length y < Suc (length cs)"
  using scanString_length [of out cs x y] by simp

lemma scanNumber_shorter:
  "scanNumber (c # cs) = Some x2 \<Longrightarrow> (x, y) = x2 \<Longrightarrow> length y < Suc (length cs)"
  using scanNumber_length [of c cs x y] by simp

text \<open>
  The tokens of a JSON text; \<open>None\<close> where a byte starts no token. White space between
  tokens is a space, a tab, a carriage return or a line feed.
\<close>

function json_lex :: "string \<Rightarrow> token list option" where
  "json_lex [] = Some []"
| "json_lex (c # cs) =
     (if isSpace c then json_lex cs
      else if c = CHR 0x7B then map_option ((#) TBeginObject) (json_lex cs)
      else if c = CHR 0x7D then map_option ((#) TEndObject) (json_lex cs)
      else if c = CHR 0x5B then map_option ((#) TBeginArray) (json_lex cs)
      else if c = CHR 0x5D then map_option ((#) TEndArray) (json_lex cs)
      else if c = CHR '':'' then map_option ((#) TColon) (json_lex cs)
      else if c = CHR '','' then map_option ((#) TComma) (json_lex cs)
      else if c = CHR 0x22 then
        (case scanString [] cs of
           None \<Rightarrow> None
         | Some (s, rest) \<Rightarrow> map_option ((#) (TLiteral (JString s))) (json_lex rest))
      else if c = CHR ''-'' \<or> isDigit c then
        (case scanNumber (c # cs) of
           None \<Rightarrow> None
         | Some (lit, rest) \<Rightarrow> map_option ((#) (TLiteral (JNumber lit))) (json_lex rest))
      else if take 4 (c # cs) = ''true'' then map_option ((#) (TLiteral (JBool True))) (json_lex (drop 3 cs))
      else if take 5 (c # cs) = ''false'' then map_option ((#) (TLiteral (JBool False))) (json_lex (drop 4 cs))
      else if take 4 (c # cs) = ''null'' then map_option ((#) (TLiteral JNull)) (json_lex (drop 3 cs))
      else None)"
  by pat_completeness auto
termination
  apply (relation "measure length")
    apply simp_all
   apply (erule scanString_shorter, assumption)
  apply (erule scanNumber_shorter, assumption)
  done

text \<open>
  The scanner of \<^verbatim>\<open>encoding/json\<close> as a machine over the tokens: its state says what may
  come next, its stack holds the arrays and objects that are open, with the members read
  so far. A text is valid when the machine ends on one complete value with nothing open.
  (The scanner also refuses a nesting deeper than 10000; a valid text of the 10240 bytes
  that \<^verbatim>\<open>getBibleVerse\<close> reads at most is never that deep.)
\<close>

datatype scan_state =
  BeginValue
| BeginValueOrEmpty
| BeginStringOrEmpty
| BeginString "(string \<times> json) list"
| ObjectKey "(string \<times> json) list" string
| EndValue json

datatype frame =
  ArrayValue "json list"
| ObjectValue "(string \<times> json) list" string

fun beginValue :: "frame list \<Rightarrow> token \<Rightarrow> (scan_state \<times> frame list) option" where
  "beginValue stack (TLiteral v) = Some (EndValue v, stack)"
| "beginValue stack TBeginArray = Some (BeginValueOrEmpty, ArrayValue [] # stack)"
| "beginValue stack TBeginObject = Some (BeginStringOrEmpty, stack)"
| "beginValue stack _ = None"

fun scan_step :: "scan_state \<Rightarrow> frame list \<Rightarrow> token \<Rightarrow> (scan_state \<times> frame list) option" where
  "scan_step BeginValue stack t = beginValue stack t"
| "scan_step BeginValueOrEmpty stack t =
     (case (t, stack) of
        (TEndArray, ArrayValue vs # stack') \<Rightarrow> Some (EndValue (JArray vs), stack')
      | _ \<Rightarrow> beginValue stack t)"
| "scan_step BeginStringOrEmpty stack t =
     (case t of
        TEndObject \<Rightarrow> Some (EndValue (JObject []), stack)
      | TLiteral (JString k) \<Rightarrow> Some (ObjectKey [] k, stack)
      | _ \<Rightarrow> None)"
| "scan_step (BeginString ms) stack t =
     (case t of
        TLiteral (JString k) \<Rightarrow> Some (ObjectKey ms k, stack)
      | _ \<Rightarrow> None)"
| "scan_step (ObjectKey ms k) stack t =
     (case t of
        TColon \<Rightarrow> Some (BeginValue, ObjectValue ms k # stack)
      | _ \<Rightarrow> None)"
| "scan_step (EndValue v) stack t =
     (case (stack, t) of
        (ObjectValue ms k # stack', TComma) \<Rightarrow> Some (BeginString (ms @ [(k, v)]), stack')
      | (ObjectValue ms k # stack', TEndObject) \<Rightarrow> Some (EndValue (JObject (ms @ [(k, v)])), stack')
      | (ArrayValue vs # stack', TComma) \<Rightarrow> Some (BeginValue, ArrayValue (vs @ [v]) # stack')
      | (ArrayValue vs # stack', TEndArray) \<Rightarrow> Some (EndValue (JArray (vs @ [v])), stack')
      | _ \<Rightarrow> None)"

fun scan_tokens :: "scan_state \<Rightarrow> frame list \<Rightarrow> token list \<Rightarrow> json option" where
  "scan_tokens st stack [] = (case (st, stack) of (EndValue v, []) \<Rightarrow> Some v | _ \<Rightarrow> None)"
| "scan_tokens st stack (t # ts) =
     (case scan_step st stack t of
        None \<Rightarrow> None
      | Some (st', stack') \<Rightarrow> scan_tokens st' stack' ts)"

definition json_parse :: "string \<Rightarrow> json option" where
  "json_parse data = (case json_lex data of None \<Rightarrow> None | Some ts \<Rightarrow> scan_tokens BeginValue [] ts)"

text \<open>
  A number literal decoded into \<^verbatim>\<open>interface{}\<close> is converted by \<^verbatim>\<open>strconv.ParseFloat\<close>,
  which fails when the literal rounds beyond the largest \<^verbatim>\<open>float64\<close>: when its magnitude
  is at least \<open>2 ^ 1024 - 2 ^ 970\<close>. The magnitude of the literal is its digits \<open>m\<close> (the
  integer and the fraction part read as one number) times ten to the power \<open>e\<close> (the
  exponent less the number of fraction digits).
\<close>

definition digitsValue :: "string \<Rightarrow> nat" where
  "digitsValue ds = foldl (\<lambda>n c. 10 * n + (byte c - 0x30)) 0 ds"

definition exponentValue :: "string \<Rightarrow> int" where
  "exponentValue s =
     (case s of
        [] \<Rightarrow> 0
      | e # r \<Rightarrow>
          (case r of
             [] \<Rightarrow> 0
           | c # ds \<Rightarrow>
               if c = CHR ''-'' then - int (digitsValue ds)
               else if c = CHR ''+'' then int (digitsValue ds)
               else int (digitsValue r)))"

definition float64_overflow :: "string \<Rightarrow> bool" where
  "float64_overflow lit =
     (let s1 = (case lit of [] \<Rightarrow> [] | c # r \<Rightarrow> if c = CHR ''-'' then r else lit);
          ip = takeWhile isDigit s1;
          r1 = dropWhile isDigit s1;
          fp = (case r1 of [] \<Rightarrow> [] | c # r \<Rightarrow> if c = CHR ''.'' then takeWhile isDigit r else []);
          r2 = (case r1 of [] \<Rightarrow> [] | c # r \<Rightarrow> if c = CHR ''.'' then dropWhile isDigit r else r1);
          m = digitsValue (ip @ fp);
          e = exponentValue r2 - int (length fp);
          limit = 2 ^ 1024 - 2 ^ 970
      in if 0 \<le> e then limit \<le> m * 10 ^ nat e else limit * 10 ^ nat (- e) \<le> m)"

text \<open>
  The number literals of a value that do not convert, in the order of the text: the
  decoder saves an \<^verbatim>\<open>UnmarshalTypeError\<close> for each and goes on.
\<close>

fun numberErrors :: "json \<Rightarrow> string list" where
  "numberErrors (JNumber lit) = (if float64_overflow lit then [lit] else [])"
| "numberErrors (JArray vs) = concat (map numberErrors vs)"
| "numberErrors (JObject ms) = concat (map (\<lambda>m. numberErrors (snd m)) ms)"
| "numberErrors _ = []"

text \<open>
  \<^verbatim>\<open>valueInterface\<close>: the Go value built for \<^verbatim>\<open>interface{}\<close>. An object becomes a map, a
  later member replacing an earlier one with the same key; a number that does not
  convert leaves \<^verbatim>\<open>nil\<close>.
\<close>

fun valueInterface :: "json \<Rightarrow> json" where
  "valueInterface (JNumber lit) = (if float64_overflow lit then JNull else JNumber lit)"
| "valueInterface (JArray vs) = JArray (map valueInterface vs)"
| "valueInterface (JObject ms) =
     JObject (foldl (\<lambda>m kv. AList.update (fst kv) (snd kv) m) []
                (map (\<lambda>m. (fst m, valueInterface (snd m))) ms))"
| "valueInterface v = v"

text \<open>
  The errors of \<^verbatim>\<open>json.Unmarshal\<close>: a text that is not valid JSON, and a JSON value that
  does not fit the Go type it is decoded into (with the description of the value).
\<close>

datatype UnmarshalError =
  SyntaxError
| UnmarshalTypeError string

text \<open>
  The struct \<^verbatim>\<open>BibleVerse\<close>. A Go map is the list of its entries, the keys distinct; a
  \<^verbatim>\<open>nil\<close> map and an empty map are both the empty list (the program only ranges over
  the maps).
\<close>

record BibleVerse =
  Translation :: "(string \<times> json) list"
  RandomVerse :: "(string \<times> json) list"

datatype field = TranslationField | RandomVerseField

text \<open>
  A member of the JSON object goes to the field whose \<^verbatim>\<open>json\<close> tag is its key, or else to
  the field whose tag equals the key when both are folded: ASCII letters to upper case,
  and a rune beyond ASCII to the least rune of its case-folding orbit. The tags are
  ASCII, and only two runes beyond ASCII fold to an ASCII letter (U+017F to \<^verbatim>\<open>S\<close> and
  U+212A to \<^verbatim>\<open>K\<close>); \<open>foldRune\<close> folds these two and leaves every other rune, which cannot
  change whether a folded key equals a folded tag.
\<close>

definition foldRune :: "rune \<Rightarrow> rune" where
  "foldRune r = (if r = 0x17F then 0x53 else if r = 0x212A then 0x4B else r)"

fun foldName :: "string \<Rightarrow> string" where
  "foldName [] = []"
| "foldName (c # cs) =
     (if byte c < 0x80
      then (if in_range c 0x61 0x7A then char_of (byte c - 0x20) else c) # foldName cs
      else (let (r, n) = DecodeRune (c # cs)
            in EncodeRune (foldRune r) @ foldName (drop (n - 1) cs)))"

definition fieldByName :: "string \<Rightarrow> field option" where
  "fieldByName key =
     (if key = ''translation'' then Some TranslationField
      else if key = ''random_verse'' then Some RandomVerseField
      else if foldName key = foldName ''translation'' then Some TranslationField
      else if foldName key = foldName ''random_verse'' then Some RandomVerseField
      else None)"

text \<open>\<^verbatim>\<open>saveError\<close> keeps the first error of a decoding.\<close>

definition saveError :: "UnmarshalError option \<Rightarrow> UnmarshalError \<Rightarrow> UnmarshalError option" where
  "saveError saved err = (case saved of None \<Rightarrow> Some err | Some e \<Rightarrow> Some e)"

text \<open>
  Decoding a JSON value into a field of type \<^verbatim>\<open>map[string]interface{}\<close>, given the map
  the field holds and the error saved so far: an object adds its members to the map,
  \<^verbatim>\<open>null\<close> sets the map to \<^verbatim>\<open>nil\<close>, and any other value is a type error that leaves the
  map as it is.
\<close>

definition storeMap ::
  "json \<Rightarrow> (string \<times> json) list \<times> UnmarshalError option
     \<Rightarrow> (string \<times> json) list \<times> UnmarshalError option" where
  "storeMap v ms =
     (case v of
        JObject members \<Rightarrow>
          (foldl (\<lambda>m kv. AList.update (fst kv) (valueInterface (snd kv)) m) (fst ms) members,
           foldl saveError (snd ms)
             (map (\<lambda>lit. UnmarshalTypeError (''number '' @ lit)) (numberErrors v)))
      | JNull \<Rightarrow> ([], snd ms)
      | JArray vs \<Rightarrow> (fst ms, saveError (snd ms) (UnmarshalTypeError ''array''))
      | JString s \<Rightarrow> (fst ms, saveError (snd ms) (UnmarshalTypeError ''string''))
      | JNumber lit \<Rightarrow> (fst ms, saveError (snd ms) (UnmarshalTypeError ''number''))
      | JBool b \<Rightarrow> (fst ms, saveError (snd ms) (UnmarshalTypeError ''bool'')))"

text \<open>One member of the top-level object: stored in its field, or skipped.\<close>

definition decodeMember ::
  "BibleVerse \<times> UnmarshalError option \<Rightarrow> string \<times> json \<Rightarrow> BibleVerse \<times> UnmarshalError option" where
  "decodeMember d kv =
     (case fieldByName (fst kv) of
        None \<Rightarrow> d
      | Some TranslationField \<Rightarrow>
          (let (m, saved) = storeMap (snd kv) (Translation (fst d), snd d)
           in ((fst d)\<lparr>Translation := m\<rparr>, saved))
      | Some RandomVerseField \<Rightarrow>
          (let (m, saved) = storeMap (snd kv) (RandomVerse (fst d), snd d)
           in ((fst d)\<lparr>RandomVerse := m\<rparr>, saved)))"

text \<open>
  Decoding a JSON value into the zero \<^verbatim>\<open>BibleVerse\<close>: the members of an object in their
  order, nothing for \<^verbatim>\<open>null\<close>, a type error for any other value.
\<close>

definition decodeValue :: "json \<Rightarrow> BibleVerse \<times> UnmarshalError option" where
  "decodeValue v =
     (let zero = \<lparr>Translation = [], RandomVerse = []\<rparr>
      in case v of
           JObject members \<Rightarrow> foldl decodeMember (zero, None) members
         | JNull \<Rightarrow> (zero, None)
         | JArray vs \<Rightarrow> (zero, Some (UnmarshalTypeError ''array''))
         | JString s \<Rightarrow> (zero, Some (UnmarshalTypeError ''string''))
         | JNumber lit \<Rightarrow> (zero, Some (UnmarshalTypeError ''number''))
         | JBool b \<Rightarrow> (zero, Some (UnmarshalTypeError ''bool'')))"

text \<open>
  \<^verbatim>\<open>json.Unmarshal(body, &verse)\<close>: the text is checked first, then decoded; the result is
  the first error saved, if any.
\<close>

definition Unmarshal :: "string \<Rightarrow> UnmarshalError + BibleVerse" where
  "Unmarshal data =
     (case json_parse data of
        None \<Rightarrow> Inl SyntaxError
      | Some v \<Rightarrow>
          (case decodeValue v of
             (verse, None) \<Rightarrow> Inr verse
           | (verse, Some err) \<Rightarrow> Inl err))"

text \<open>
  What the claims say of a JSON object and the struct: a value a map field accepts (an
  object whose numbers convert, or \<^verbatim>\<open>null\<close>); an object that lacks a field (no member
  goes to it); an object whose members that go to a field are all accepted.
\<close>

definition storable :: "json \<Rightarrow> bool" where
  "storable v = (case v of JObject members \<Rightarrow> numberErrors v = [] | JNull \<Rightarrow> True | _ \<Rightarrow> False)"

definition lacks :: "field \<Rightarrow> (string \<times> json) list \<Rightarrow> bool" where
  "lacks f members = list_all (\<lambda>kv. fieldByName (fst kv) \<noteq> Some f) members"

definition fields_storable :: "(string \<times> json) list \<Rightarrow> bool" where
  "fields_storable members = list_all (\<lambda>kv. fieldByName (fst kv) = None \<or> storable (snd kv)) members"

section \<open>The provider client\<close>

text \<open>
  The body of a response is a reader. It is modelled by the results it hands to
  successive \<^verbatim>\<open>Read\<close> calls: each the bytes read and \<^verbatim>\<open>nil\<close>, \<^verbatim>\<open>io.EOF\<close> or another error
  (a reset connection, the client's timeout). A reader whose results are used up is at
  its end.
\<close>

datatype read_status = Continue | EOF | Failed string

type_synonym reader = "(string \<times> read_status) list"

text \<open>All the bytes a reader delivers, up to its end or its failure.\<close>

fun delivered :: "reader \<Rightarrow> string" where
  "delivered [] = []"
| "delivered ((p, st) # rs) = p @ (if st = Continue then delivered rs else [])"

text \<open>
  \<^verbatim>\<open>io.ReadAll(io.LimitReader(r, n))\<close>: the loop of \<^verbatim>\<open>ReadAll\<close> over the limited reader, \<open>b\<close>
  the bytes read so far. The limited reader is at its end once \<open>n\<close> bytes are read, and
  asks the reader below for no more than the bytes that remain; \<^verbatim>\<open>ReadAll\<close> stops at the
  end (no error) or at the first error (returned with the bytes read).
\<close>

fun ReadAllLimited :: "nat \<Rightarrow> reader \<Rightarrow> string \<Rightarrow> string \<times> string option" where
  "ReadAllLimited n [] b = (b, None)"
| "ReadAllLimited n ((p, st) # rs) b =
     (if n = 0 then (b, None)
      else if n < length p then (b @ take n p, None)
      else (case st of
              Continue \<Rightarrow> ReadAllLimited (n - length p) rs (b @ p)
            | EOF \<Rightarrow> (b @ p, None)
            | Failed err \<Rightarrow> (b @ p, Some err)))"

record Response =
  StatusCode :: int
  Body :: reader

text \<open>
  What the program meets outside itself while it handles a message: the result of the
  GET request of the HTTP client (an error, or a response), the reading of the clock,
  the text \<^verbatim>\<open>fmt\<close> prints for a decoded value under \<^verbatim>\<open>%v\<close>, and the order in which the
  runtime ranges over a map (Go leaves it open): the \<open>i\<close>-th range loop visits the keys
  by increasing \<open>range_order i\<close>.
\<close>

record Time =
  year :: int
  month :: nat
  day :: nat
  hour :: nat
  minute :: nat
  second :: nat
  offset :: int

record world =
  http_Get :: "string \<Rightarrow> string + Response"
  time_Now :: Time
  format_value :: "json \<Rightarrow> string"
  range_order :: "nat \<Rightarrow> string \<Rightarrow> nat"

text \<open>
  The four errors \<^verbatim>\<open>getBibleVerse\<close> returns, and what a run does that can be observed:
  lines logged, messages sent to a channel, the GET request and the closing of the body.
\<close>

datatype fetch_error =
  RequestFailed string
| BadStatus int
| ReadFailed string
| ParseFailed UnmarshalError

record MessageEmbed =
  Title :: string
  Description :: string
  Color :: int
  Timestamp :: string

datatype log_entry =
  MessageReceived string string string
| SendError string string
| EmbedSendError string string
| VerseRetrievalError fetch_error

datatype event =
  Log log_entry
| ChannelMessageSend string string
| ChannelMessageSendEmbed string MessageEmbed
| Get string
| BodyClose

text \<open>\<^verbatim>\<open>getBibleVerse\<close>: its result and the events of the call.\<close>

definition getBibleVerse :: "world \<Rightarrow> (fetch_error + BibleVerse) \<times> event list" where
  "getBibleVerse w =
     (case http_Get w BibleAPIURL of
        Inl err \<Rightarrow> (Inl (RequestFailed err), [Get BibleAPIURL])
      | Inr resp \<Rightarrow>
          (if StatusCode resp \<noteq> 200
           then (Inl (BadStatus (StatusCode resp)), [Get BibleAPIURL, BodyClose])
           else (case ReadAllLimited (10 * 1024) (Body resp) [] of
                   (body, Some err) \<Rightarrow> (Inl (ReadFailed err), [Get BibleAPIURL, BodyClose])
                 | (body, None) \<Rightarrow>
                     (case Unmarshal body of
                        Inl err \<Rightarrow> (Inl (ParseFailed err), [Get BibleAPIURL, BodyClose])
                      | Inr verse \<Rightarrow> (Inr verse, [Get BibleAPIURL, BodyClose])))))"

text \<open>
  The requests among the events of a run.
\<close>

fun is_request :: "event \<Rightarrow> bool" where
  "is_request (Get url) = True"
| "is_request _ = False"

definition requests :: "event list \<Rightarrow> event list" where
  "requests events = filter is_request events"

section \<open>The response formatter\<close>

text \<open>\<^verbatim>\<open>Time.Format(time.RFC3339)\<close>, with \<^verbatim>\<open>appendInt\<close> padding a number with zeros.\<close>

fun digits :: "nat \<Rightarrow> string" where
  "digits n = (if n < 10 then [char_of (0x30 + n)] else digits (n div 10) @ [char_of (0x30 + n mod 10)])"

definition appendInt :: "string \<Rightarrow> int \<Rightarrow> nat \<Rightarrow> string" where
  "appendInt b x width =
     (let ds = digits (nat \<bar>x\<bar>)
      in b @ (if x < 0 then ''-'' else []) @ replicate (width - length ds) (CHR ''0'') @ ds)"

definition Format_RFC3339 :: "Time \<Rightarrow> string" where
  "Format_RFC3339 t =
     (let b = appendInt [] (year t) 4;
          b = b @ ''-'';
          b = appendInt b (int (month t)) 2;
          b = b @ ''-'';
          b = appendInt b (int (day t)) 2;
          b = b @ ''T'';
          b = appendInt b (int (hour t)) 2;
          b = b @ '':'';
          b = appendInt b (int (minute t)) 2;
          b = b @ '':'';
          b = appendInt b (int (second t)) 2
      in if offset t = 0 then b @ ''Z''
         else (let zone = (if offset t < 0 then - ((- offset t) div 60) else offset t div 60);
                   b = b @ (if zone < 0 then ''-'' else ''+'');
                   zone = \<bar>zone\<bar>;
                   b = appendInt b (zone div 60) 2;
                   b = b @ '':''
               in appendInt b (zone mod 60) 2))"

text \<open>The entries of a map in the order a range loop visits them.\<close>

definition mapRange :: "(string \<Rightarrow> nat) \<Rightarrow> (string \<times> json) list \<Rightarrow> (string \<times> json) list" where
  "mapRange rank m = sort_key (\<lambda>kv. rank (fst kv)) m"

text \<open>\<^verbatim>\<open>strings.Builder.WriteString\<close> appends to the text built so far.\<close>

definition WriteString :: "string \<Rightarrow> string \<Rightarrow> string" where
  "WriteString builder s = builder @ s"

text \<open>\<^verbatim>\<open>fmt.Sprintf("- %s: %v\n", key, value)\<close>.\<close>

definition Sprintf_entry :: "world \<Rightarrow> string \<Rightarrow> json \<Rightarrow> string" where
  "Sprintf_entry w key v = ''- '' @ key @ '': '' @ format_value w v @ ''\<newline>''"

definition createVerseEmbed :: "world \<Rightarrow> BibleVerse \<Rightarrow> MessageEmbed" where
  "createVerseEmbed w verse =
     (let builder = [];
          builder = WriteString builder ''**Translation Details:**\<newline>'';
          builder = foldl (\<lambda>b kv. WriteString b (Sprintf_entry w (fst kv) (snd kv)))
                      builder (mapRange (range_order w 0) (Translation verse));
          builder = WriteString builder ''\<newline>**Random Verse:**\<newline>'';
          builder = foldl (\<lambda>b kv. WriteString b (Sprintf_entry w (fst kv) (snd kv)))
                      builder (mapRange (range_order w 1) (RandomVerse verse))
      in \<lparr> Title = ''Daily Bible Verse '' @ [CHR 0xF0, CHR 0x9F, CHR 0x93, CHR 0x96],
           Description = builder,
           Color = 0x3498db,
           Timestamp = Format_RFC3339 (time_Now w) \<rparr>)"

section \<open>The command dispatcher\<close>

text \<open>
  The session of the SDK, as far as the program uses it: the identity of the bot, and
  the error, if any, with which \<^verbatim>\<open>ChannelMessageSend\<close> and \<^verbatim>\<open>ChannelMessageSendEmbed\<close>
  return for a channel and a content. The inbound message, with the fields the handler
  reads (a message event carries its author).
\<close>

record Session =
  State_User_ID :: string
  send_error :: "string \<Rightarrow> string \<Rightarrow> string option"
  send_embed_error :: "string \<Rightarrow> MessageEmbed \<Rightarrow> string option"

record MessageCreate =
  Author_ID :: string
  Author_Username :: string
  ChannelID :: string
  Content :: string

definition SafeSend :: "Session \<Rightarrow> string \<Rightarrow> string \<Rightarrow> event list" where
  "SafeSend s channelID content =
     ChannelMessageSend channelID content #
     (case send_error s channelID content of
        Some err \<Rightarrow> [Log (SendError channelID err)]
      | None \<Rightarrow> [])"

definition SafeSendEmbed :: "Session \<Rightarrow> string \<Rightarrow> MessageEmbed \<Rightarrow> event list" where
  "SafeSendEmbed s channelID e =
     ChannelMessageSendEmbed channelID e #
     (case send_embed_error s channelID e of
        Some err \<Rightarrow> [Log (EmbedSendError channelID err)]
      | None \<Rightarrow> [])"

text \<open>The texts the dispatcher sends.\<close>

definition greeting_text :: string where
  "greeting_text = ''Hello! I'm your Bible verse bot. Type !verse for a random verse!''"

definition pong_text :: string where
  "pong_text = ''Pong! '' @ [CHR 0xF0, CHR 0x9F, CHR 0x8F, CHR 0x93]"

definition apology_text :: string where
  "apology_text = ''Sorry, I couldn't retrieve a verse right now.''"

definition unknown_command_text :: string where
  "unknown_command_text = ''Unknown command. Try !hello, !ping, or !verse''"

text \<open>\<^verbatim>\<open>messageCreate\<close>: the events of handling one message. The handler returns nothing.\<close>

definition messageCreate :: "world \<Rightarrow> Session \<Rightarrow> MessageCreate \<Rightarrow> event list" where
  "messageCreate w s m =
     (if Author_ID m = State_User_ID s then []
      else
        Log (MessageReceived (ChannelID m) (Author_Username m) (Content m)) #
        (if \<not> HasPrefix (Content m) Prefix then []
         else
           (let content = TrimPrefix (Content m) Prefix;
                parts = Fields content
            in case parts of
                 [] \<Rightarrow> []
               | command # args \<Rightarrow>
                   if command = ''hello'' then SafeSend s (ChannelID m) greeting_text
                   else if command = ''ping'' then SafeSend s (ChannelID m) pong_text
                   else if command = ''verse'' then
                     (case getBibleVerse w of
                        (Inl err, events) \<Rightarrow>
                          events @ Log (VerseRetrievalError err) #
                          SafeSend s (ChannelID m) apology_text
                      | (Inr verse, events) \<Rightarrow>
                          events @ SafeSendEmbed s (ChannelID m) (createVerseEmbed w verse))
                   else SafeSend s (ChannelID m) unknown_command_text)))"

text \<open>The sends among the events of a run, and the channel a send goes to.\<close>

fun is_send :: "event \<Rightarrow> bool" where
  "is_send (ChannelMessageSend channelID content) = True"
| "is_send (ChannelMessageSendEmbed channelID e) = True"
| "is_send _ = False"

definition sends :: "event list \<Rightarrow> event list" where
  "sends events = filter is_send events"

fun send_channel :: "event \<Rightarrow> string option" where
  "send_channel (ChannelMessageSend channelID content) = Some channelID"
| "send_channel (ChannelMessageSendEmbed channelID e) = Some channelID"
| "send_channel _ = None"

text \<open>
  The lines the two send functions log for a failed send, and a run without them: what
  the handler does apart from reporting failed sends.
\<close>

fun is_send_failure_log :: "event \<Rightarrow> bool" where
  "is_send_failure_log (Log (SendError channelID err)) = True"
| "is_send_failure_log (Log (EmbedSendError channelID err)) = True"
| "is_send_failure_log _ = False"

definition without_send_failure_logs :: "event list \<Rightarrow> event list" where
  "without_send_failure_logs events = filter (\<lambda>e. \<not> is_send_failure_log e) events"

section \<open>Concrete runs\<close>

text \<open>
  Two concrete startups: a process that has the credential in its environment and no
  settings file to read, and a process whose settings file supplies the credential.
\<close>

definition world_without_env_file :: config_world where
  "world_without_env_file =
     \<lparr> environ = [''DISCORD_BOT_TOKEN'' \<mapsto> ''abc''],
       read_env_file = (\<lambda>name. Inl ''open .env: no such file or directory'') \<rparr>"

definition world_with_env_file :: config_world where
  "world_with_env_file =
     \<lparr> environ = [''DEBUG'' \<mapsto> ''true''],
       read_env_file = (\<lambda>name. Inr [''DISCORD_BOT_TOKEN'' \<mapsto> ''abc'', ''DEBUG'' \<mapsto> ''false'']) \<rparr>"

text \<open>
  A provider that answers with a small verse, a provider that cannot be reached, a
  session whose sends succeed and one whose sends fail, a message of a user and a
  message of the bot itself.
\<close>

definition example_world :: world where
  "example_world =
     \<lparr> http_Get = (\<lambda>url. Inr \<lparr> StatusCode = 200,
                                 Body = [(''{\"translation\":{\"name\":\"WEB\"},\"random_verse\":{\"book\":\"John\"}}'', EOF)] \<rparr>),
       time_Now = \<lparr> year = 2024, month = 3, day = 9, hour = 7, minute = 5, second = 0, offset = 0 \<rparr>,
       format_value = (\<lambda>v. case v of JString s \<Rightarrow> s | _ \<Rightarrow> ''?''),
       range_order = (\<lambda>i key. length key) \<rparr>"

definition failing_world :: world where
  "failing_world = example_world \<lparr> http_Get := (\<lambda>url. Inl ''context deadline exceeded'') \<rparr>"

definition example_session :: Session where
  "example_session =
     \<lparr> State_User_ID = ''bot'',
       send_error = (\<lambda>channelID content. None),
       send_embed_error = (\<lambda>channelID e. None) \<rparr>"

definition failing_session :: Session where
  "failing_session =
     \<lparr> State_User_ID = ''bot'',
       send_error = (\<lambda>channelID content. Some ''HTTP 403 Forbidden''),
       send_embed_error = (\<lambda>channelID e. Some ''HTTP 403 Forbidden'') \<rparr>"

definition user_message :: "string \<Rightarrow> MessageCreate" where
  "user_message content =
     \<lparr> Author_ID = ''user'', Author_Username = ''alice'', ChannelID = ''general'', Content = content \<rparr>"

definition bot_message :: "string \<Rightarrow> MessageCreate" where
  "bot_message content =
     \<lparr> Author_ID = ''bot'', Author_Username = ''versebot'', ChannelID = ''general'', Content = content \<rparr>"


definition truncated_response :: Response where
  "truncated_response = \<lparr> StatusCode = 200, Body = [(''{}'', Failed ''unexpected EOF'')] \<rparr>"

definition truncated_world :: world where
  "truncated_world = example_world \<lparr> http_Get := (\<lambda>url. Inr truncated_response) \<rparr>"

definition padded_response :: Response where
  "padded_response = \<lparr> StatusCode = 200, Body = [(''{}'' @ replicate 10239 (CHR '' ''), EOF)] \<rparr>"

definition padded_world :: world where
  "padded_world = example_world \<lparr> http_Get := (\<lambda>url. Inr padded_response) \<rparr>"

text \<open>
  Three more responses: an object whose \<^verbatim>\<open>translation\<close> is a number, an object of 10254
  bytes with neither field, and an object with a verse and no translation.
\<close>

definition mistyped_response :: Response where
  "mistyped_response = \<lparr> StatusCode = 200, Body = [(''{\"translation\":5}'', EOF)] \<rparr>"

definition mistyped_world :: world where
  "mistyped_world = example_world \<lparr> http_Get := (\<lambda>url. Inr mistyped_response) \<rparr>"

definition oversized_object :: string where
  "oversized_object = ''{\"padding\":\"'' @ replicate 10240 (CHR ''a'') @ ''\"}''"

definition oversized_response :: Response where
  "oversized_response = \<lparr> StatusCode = 200, Body = [(oversized_object, EOF)] \<rparr>"

definition oversized_world :: world where
  "oversized_world = example_world \<lparr> http_Get := (\<lambda>url. Inr oversized_response) \<rparr>"

definition sparse_response :: Response where
  "sparse_response = \<lparr> StatusCode = 200, Body = [(''{\"random_verse\":{\"book\":\"John\"},\"id\":7}'', EOF)] \<rparr>"

definition sparse_world :: world where
  "sparse_world = example_world \<lparr> http_Get := (\<lambda>url. Inr sparse_response) \<rparr>"

section \<open>The environment after loading the settings file\<close>

text \<open>
  \<^verbatim>\<open>os.Getenv\<close> after \<^verbatim>\<open>godotenv.Load\<close> gives the setting.
\<close>

lemma Getenv_loaded: "Getenv (envMap ++ environ w) k = setting w envMap k"
  by (simp add: Getenv_def setting_def map_add_def split: option.split)

section \<open>The sends of a run\<close>

text \<open>
  The sends of the parts of a run. \<^verbatim>\<open>getBibleVerse\<close> sends nothing to a channel.
\<close>

lemma sends_append: "sends (xs @ ys) = sends xs @ sends ys"
  by (simp add: sends_def)

lemma sends_Cons_Log: "sends (Log l # xs) = sends xs"
  by (simp add: sends_def)

lemma sends_SafeSend: "sends (SafeSend s channelID content) = [ChannelMessageSend channelID content]"
  by (simp add: sends_def SafeSend_def split: option.split)

lemma sends_SafeSendEmbed: "sends (SafeSendEmbed s channelID e) = [ChannelMessageSendEmbed channelID e]"
  by (simp add: sends_def SafeSendEmbed_def split: option.split)

lemma getBibleVerse_events:
  "snd (getBibleVerse w) = [Get BibleAPIURL] \<or> snd (getBibleVerse w) = [Get BibleAPIURL, BodyClose]"
  by (simp add: getBibleVerse_def split: sum.split prod.split option.split)

lemma sends_getBibleVerse: "sends (snd (getBibleVerse w)) = []"
  using getBibleVerse_events [of w] by (auto simp: sends_def)

text \<open>The sends of a message that reaches the dispatch.\<close>

lemma sends_dispatch:
  assumes "Author_ID m \<noteq> State_User_ID s"
    and "HasPrefix (Content m) Prefix"
    and "Fields (TrimPrefix (Content m) Prefix) = command # args"
  shows "sends (messageCreate w s m) =
     (if command = ''hello'' then [ChannelMessageSend (ChannelID m) greeting_text]
      else if command = ''ping'' then [ChannelMessageSend (ChannelID m) pong_text]
      else if command = ''verse'' then
        (case fst (getBibleVerse w) of
           Inl err \<Rightarrow> [ChannelMessageSend (ChannelID m) apology_text]
         | Inr verse \<Rightarrow> [ChannelMessageSendEmbed (ChannelID m) (createVerseEmbed w verse)])
      else [ChannelMessageSend (ChannelID m) unknown_command_text])"
proof -
  obtain r events where g: "getBibleVerse w = (r, events)" by force
  then have "sends events = []" using sends_getBibleVerse [of w] by simp
  with assms g show ?thesis
    by (simp add: messageCreate_def Let_def sends_Cons_Log sends_append sends_SafeSend
        sends_SafeSendEmbed split: sum.split)
qed

text \<open>
  A message that is dropped before the dispatch causes no send.
\<close>

lemma sends_no_dispatch:
  assumes "Author_ID m = State_User_ID s \<or> \<not> HasPrefix (Content m) Prefix
           \<or> Fields (TrimPrefix (Content m) Prefix) = []"
  shows "sends (messageCreate w s m) = []"
  using assms by (auto simp: messageCreate_def Let_def sends_def)

text \<open>
  The events of a message that reaches the dispatch.
\<close>

lemma messageCreate_dispatch:
  assumes "Author_ID m \<noteq> State_User_ID s"
    and "HasPrefix (Content m) Prefix"
    and "Fields (TrimPrefix (Content m) Prefix) = command # args"
  shows "messageCreate w s m =
     Log (MessageReceived (ChannelID m) (Author_Username m) (Content m)) #
     (if command = ''hello'' then SafeSend s (ChannelID m) greeting_text
      else if command = ''ping'' then SafeSend s (ChannelID m) pong_text
      else if command = ''verse'' then
        snd (getBibleVerse w) @
        (case fst (getBibleVerse w) of
           Inl err \<Rightarrow> Log (VerseRetrievalError err) # SafeSend s (ChannelID m) apology_text
         | Inr verse \<Rightarrow> SafeSendEmbed s (ChannelID m) (createVerseEmbed w verse))
      else SafeSend s (ChannelID m) unknown_command_text)"
  using assms by (simp add: messageCreate_def Let_def split: prod.split sum.split)

text \<open>
  The concrete runs, evaluated.
\<close>

lemma example_world_verse:
  "fst (getBibleVerse example_world) =
     Inr \<lparr> Translation = [(''name'', JString ''WEB'')], RandomVerse = [(''book'', JString ''John'')] \<rparr>"
  by code_simp

lemma failing_world_verse:
  "fst (getBibleVerse failing_world) = Inl (RequestFailed ''context deadline exceeded'')"
  by code_simp

lemma Fields_examples:
  "Fields (TrimPrefix ''!verse'' Prefix) = [''verse'']"
  "Fields (TrimPrefix ''!verse please'' Prefix) = [''verse'', ''please'']"
  "Fields (TrimPrefix ''!bogus'' Prefix) = [''bogus'']"
  "Fields (TrimPrefix ''!Hello'' Prefix) = [''Hello'']"
  "Fields (TrimPrefix ''!hello'' Prefix) = [''hello'']"
  "Fields (TrimPrefix ''!ping'' Prefix) = [''ping'']"
  by code_simp+

lemma HasPrefix_examples:
  "HasPrefix ''!verse'' Prefix" "HasPrefix ''!verse please'' Prefix" "HasPrefix ''!bogus'' Prefix"
  "HasPrefix ''!Hello'' Prefix" "HasPrefix ''!hello'' Prefix" "HasPrefix ''!ping'' Prefix"
  by (simp_all add: HasPrefix_def Prefix_def)

text \<open>
  A run without the log lines of failed sends does not depend on what the sends return.
\<close>

lemma without_logs_SafeSend:
  "without_send_failure_logs (SafeSend s channelID content) = [ChannelMessageSend channelID content]"
  by (simp add: without_send_failure_logs_def SafeSend_def split: option.split)

lemma without_logs_SafeSendEmbed:
  "without_send_failure_logs (SafeSendEmbed s channelID e) = [ChannelMessageSendEmbed channelID e]"
  by (simp add: without_send_failure_logs_def SafeSendEmbed_def split: option.split)

lemma without_logs_messageCreate:
  "without_send_failure_logs (messageCreate w s m) =
     (if Author_ID m = State_User_ID s then []
      else
        Log (MessageReceived (ChannelID m) (Author_Username m) (Content m)) #
        (if \<not> HasPrefix (Content m) Prefix then []
         else
           (case Fields (TrimPrefix (Content m) Prefix) of
              [] \<Rightarrow> []
            | command # args \<Rightarrow>
                if command = ''hello'' then [ChannelMessageSend (ChannelID m) greeting_text]
                else if command = ''ping'' then [ChannelMessageSend (ChannelID m) pong_text]
                else if command = ''verse'' then
                  without_send_failure_logs (snd (getBibleVerse w)) @
                  (case fst (getBibleVerse w) of
                     Inl err \<Rightarrow>
                       [Log (VerseRetrievalError err), ChannelMessageSend (ChannelID m) apology_text]
                   | Inr verse \<Rightarrow>
                       [ChannelMessageSendEmbed (ChannelID m) (createVerseEmbed w verse)])
                else [ChannelMessageSend (ChannelID m) unknown_command_text])))"
proof -
  have app: "\<And>xs ys. without_send_failure_logs (xs @ ys)
      = without_send_failure_logs xs @ without_send_failure_logs ys"
    by (simp add: without_send_failure_logs_def)
  have cons: "\<And>l xs. \<not> is_send_failure_log l \<Longrightarrow>
      without_send_failure_logs (l # xs) = l # without_send_failure_logs xs"
    by (simp add: without_send_failure_logs_def)
  have nil: "without_send_failure_logs [] = []"
    by (simp add: without_send_failure_logs_def)
  show ?thesis
    by (simp add: messageCreate_def Let_def app cons nil without_logs_SafeSend
        without_logs_SafeSendEmbed split: list.split prod.split sum.split)
qed

section \<open>The formatter and the provider client\<close>

text \<open>
  The text a loop of \<^verbatim>\<open>WriteString\<close> builds; a range loop visits every entry once.
\<close>

lemma foldl_WriteString:
  "foldl (\<lambda>b kv. WriteString b (f kv)) b xs = b @ concat (map f xs)"
  by (induction xs arbitrary: b) (simp_all add: WriteString_def)




text \<open>
  The bytes read under a limit are the first bytes the reader delivers.
\<close>

lemma ReadAllLimited_delivered:
  "fst (ReadAllLimited n rs b) = b @ take n (delivered rs)"
  by (induction n rs b rule: ReadAllLimited.induct) (auto split: read_status.split)

text \<open>
  An empty object, also when spaces follow it, decodes to the zero struct.
\<close>

lemma Unmarshal_empty_object: "Unmarshal ''{}'' = Inr \<lparr> Translation = [], RandomVerse = [] \<rparr>"
  by code_simp

lemma json_lex_spaces: "json_lex (replicate n (CHR '' '')) = Some []"
  by (induction n) (simp_all add: isSpace_def)

lemma Unmarshal_padded: "Unmarshal (''{}'' @ replicate n (CHR '' '')) = Inr \<lparr> Translation = [], RandomVerse = [] \<rparr>"
  by (simp add: Unmarshal_def json_parse_def json_lex_spaces isSpace_def decodeValue_def)

lemma take_padded: "take (10 * 1024) (''{}'' @ replicate 10239 (CHR '' '')) = ''{}'' @ replicate 10238 (CHR '' '')"
  by (simp add: take_Cons')

section \<open>Decoding objects\<close>

text \<open>
  Decoding the members of an object saves no error exactly when every member that goes
  to a field holds a value the field accepts, and leaves a field that no member goes to
  as it was.
\<close>

lemma foldl_saveError:
  "foldl saveError e xs = (case e of Some x \<Rightarrow> Some x | None \<Rightarrow> (case xs of [] \<Rightarrow> None | x # _ \<Rightarrow> Some x))"
  by (induction xs arbitrary: e) (auto simp: saveError_def split: option.split list.split)

lemma storeMap_saved: "snd (storeMap v (m, e)) = None \<longleftrightarrow> e = None \<and> storable v"
  by (cases v)
     (auto simp: storeMap_def storable_def saveError_def foldl_saveError
           simp del: numberErrors.simps split: option.split list.split)

lemma decodeMember_saved:
  "snd (decodeMember d kv) = None \<longleftrightarrow>
     snd d = None \<and> (fieldByName (fst kv) = None \<or> storable (snd kv))"
proof (cases "fieldByName (fst kv)")
  case None
  then show ?thesis by (simp add: decodeMember_def)
next
  case (Some f)
  then show ?thesis
    using storeMap_saved [of "snd kv" "Translation (fst d)" "snd d"]
      storeMap_saved [of "snd kv" "RandomVerse (fst d)" "snd d"]
    by (cases f) (auto simp: decodeMember_def split: prod.split)
qed

lemma decode_saved:
  "snd (foldl decodeMember d members) = None \<longleftrightarrow> snd d = None \<and> fields_storable members"
  by (induction members arbitrary: d) (auto simp: decodeMember_saved fields_storable_def)

lemma decodeMember_Translation:
  "fieldByName (fst kv) \<noteq> Some TranslationField \<Longrightarrow>
     Translation (fst (decodeMember d kv)) = Translation (fst d)"
  by (auto simp: decodeMember_def split: option.split field.split prod.split)

lemma decodeMember_RandomVerse:
  "fieldByName (fst kv) \<noteq> Some RandomVerseField \<Longrightarrow>
     RandomVerse (fst (decodeMember d kv)) = RandomVerse (fst d)"
  by (auto simp: decodeMember_def split: option.split field.split prod.split)

lemma decode_lacks_Translation:
  "lacks TranslationField members \<Longrightarrow>
     Translation (fst (foldl decodeMember d members)) = Translation (fst d)"
  by (induction members arbitrary: d) (auto simp: lacks_def decodeMember_Translation)

lemma decode_lacks_RandomVerse:
  "lacks RandomVerseField members \<Longrightarrow>
     RandomVerse (fst (foldl decodeMember d members)) = RandomVerse (fst d)"
  by (induction members arbitrary: d) (auto simp: lacks_def decodeMember_RandomVerse)

lemma Unmarshal_object:
  assumes "json_parse body = Some (JObject members)" and "fields_storable members"
  shows "Unmarshal body = Inr (fst (decodeValue (JObject members)))"
proof -
  have "snd (decodeValue (JObject members)) = None"
    using assms(2) by (simp add: decodeValue_def decode_saved)
  then show ?thesis
    using assms(1) by (cases "decodeValue (JObject members)") (simp add: Unmarshal_def)
qed

lemma decodeValue_lacks:
  "lacks TranslationField members \<Longrightarrow> Translation (fst (decodeValue (JObject members))) = []"
  "lacks RandomVerseField members \<Longrightarrow> RandomVerse (fst (decodeValue (JObject members))) = []"
  by (simp_all add: decodeValue_def decode_lacks_Translation decode_lacks_RandomVerse)

text \<open>
  A long object: a string of letters is read to its end, so the object is valid, and cut
  inside the string it is not.
\<close>

lemma scanString_letters:
  "scanString out (replicate n (CHR ''a'') @ rest) = scanString (out @ replicate n (CHR ''a'')) rest"
proof (induction n arbitrary: out)
  case 0
  show ?case by simp
next
  case (Suc n)
  have "scanString out (replicate (Suc n) (CHR ''a'') @ rest)
      = scanString (out @ [CHR ''a'']) (replicate n (CHR ''a'') @ rest)"
    by (simp add: byte_def)
  also have "\<dots> = scanString ((out @ [CHR ''a'']) @ replicate n (CHR ''a'')) rest"
    by (rule Suc.IH)
  also have "(out @ [CHR ''a'']) @ replicate n (CHR ''a'') = out @ replicate (Suc n) (CHR ''a'')"
    by (simp add: replicate_app_Cons_same)
  finally show ?case .
qed

lemma json_lex_closing: "json_lex ''}'' = Some [TEndObject]"
  by code_simp

lemma json_lex_oversized:
  "json_lex (''{\"padding\":\"'' @ replicate n (CHR ''a'') @ ''\"}'')
     = Some [TBeginObject, TLiteral (JString ''padding''), TColon,
             TLiteral (JString (replicate n (CHR ''a''))), TEndObject]"
proof -
  have s1: "scanString [] (''padding\":\"'' @ replicate n (CHR ''a'') @ ''\"}'')
      = Some (''padding'', '':\"'' @ replicate n (CHR ''a'') @ ''\"}'')"
    by (simp add: byte_def)
  have s2: "scanString [] (replicate n (CHR ''a'') @ ''\"}'') = Some (replicate n (CHR ''a''), ''}'')"
    by (simp add: scanString_letters)
  have l3: "json_lex ('':\"'' @ replicate n (CHR ''a'') @ ''\"}'')
      = Some [TColon, TLiteral (JString (replicate n (CHR ''a''))), TEndObject]"
    using s2 json_lex_closing by (simp add: isSpace_def)
  show ?thesis
    using s1 l3 by (simp add: isSpace_def)
qed

lemma json_lex_cut: "json_lex (''{\"padding\":\"'' @ replicate n (CHR ''a'')) = None"
proof -
  have s1: "scanString [] (''padding\":\"'' @ replicate n (CHR ''a''))
      = Some (''padding'', '':\"'' @ replicate n (CHR ''a''))"
    by (simp add: byte_def)
  have "scanString [] (replicate n (CHR ''a'') @ []) = scanString ([] @ replicate n (CHR ''a'')) []"
    by (rule scanString_letters)
  then have s2: "scanString [] (replicate n (CHR ''a'')) = None"
    by simp
  have l3: "json_lex ('':\"'' @ replicate n (CHR ''a'')) = None"
    using s2 by (simp add: isSpace_def)
  show ?thesis
    using s1 l3 by (simp add: isSpace_def)
qed

lemma json_parse_oversized:
  "json_parse oversized_object = Some (JObject [(''padding'', JString (replicate 10240 (CHR ''a'')))])"
proof -
  have "json_parse oversized_object
      = scan_tokens BeginValue []
          [TBeginObject, TLiteral (JString ''padding''), TColon,
           TLiteral (JString (replicate 10240 (CHR ''a''))), TEndObject]"
    by (simp only: json_parse_def oversized_object_def json_lex_oversized option.case)
  then show ?thesis by simp
qed

lemma length_oversized: "length oversized_object = 10254"
  by (simp only: oversized_object_def length_append length_replicate) simp

lemma take_oversized:
  "take (10 * 1024) oversized_object = ''{\"padding\":\"'' @ replicate 10228 (CHR ''a'')"
proof -
  have "take (10 * 1024) oversized_object
      = ''{\"padding\":\"'' @ take 10228 (replicate 10240 (CHR ''a'') @ ''\"}'')"
    by (simp only: oversized_object_def take_append) simp
  also have "take 10228 (replicate 10240 (CHR ''a'') @ ''\"}'') = replicate 10228 (CHR ''a'')"
    by (simp only: take_append take_replicate length_replicate) simp
  finally show ?thesis .
qed

lemma getBibleVerse_oversized: "fst (getBibleVerse oversized_world) = Inl (ParseFailed SyntaxError)"
proof -
  have "ReadAllLimited (10 * 1024) [(oversized_object, EOF)] []
      = ([] @ take (10 * 1024) oversized_object, None)"
    using length_oversized by (simp only: ReadAllLimited.simps) simp
  then have r: "ReadAllLimited (10 * 1024) (Body oversized_response) []
      = (''{\"padding\":\"'' @ replicate 10228 (CHR ''a''), None)"
    by (simp only: take_oversized oversized_response_def Response.simps append_Nil)
  have u: "Unmarshal (''{\"padding\":\"'' @ replicate 10228 (CHR ''a'')) = Inl SyntaxError"
    by (simp only: Unmarshal_def json_parse_def json_lex_cut option.case)
  have g: "http_Get oversized_world BibleAPIURL = Inr oversized_response"
    by (simp add: oversized_world_def)
  have st: "StatusCode oversized_response = 200"
    by (simp add: oversized_response_def)
  show ?thesis
    by (simp only: getBibleVerse_def g st r u sum.case prod.case option.case if_False
        simp_thms fst_conv)
qed

text \<open>
  The other responses, evaluated.
\<close>

lemma getBibleVerse_mistyped:
  "fst (getBibleVerse mistyped_world) = Inl (ParseFailed (UnmarshalTypeError ''number''))"
  by code_simp

lemma getBibleVerse_sparse:
  "fst (getBibleVerse sparse_world) = Inr \<lparr> Translation = [], RandomVerse = [(''book'', JString ''John'')] \<rparr>"
  by code_simp

lemma json_parse_examples:
  "json_parse (delivered (Body mistyped_response)) = Some (JObject [(''translation'', JNumber ''5'')])"
  "json_parse (delivered (Body sparse_response)) =
     Some (JObject [(''random_verse'', JObject [(''book'', JString ''John'')]), (''id'', JNumber ''7'')])"
  by code_simp+

lemma lacks_examples:
  "lacks RandomVerseField [(''translation'', JNumber ''5'')]"
  "lacks TranslationField [(''padding'', JString (replicate 10240 (CHR ''a'')))]"
  "lacks RandomVerseField [(''padding'', JString (replicate 10240 (CHR ''a'')))]"
  "lacks TranslationField [(''random_verse'', JObject [(''book'', JString ''John'')]), (''id'', JNumber ''7'')]"
  "fields_storable [(''random_verse'', JObject [(''book'', JString ''John'')]), (''id'', JNumber ''7'')]"
proof -
  have f: "fieldByName ''translation'' = Some TranslationField" "fieldByName ''padding'' = None"
    "fieldByName ''random_verse'' = Some RandomVerseField" "fieldByName ''id'' = None"
    by code_simp+
  show "lacks RandomVerseField [(''translation'', JNumber ''5'')]"
    "lacks TranslationField [(''padding'', JString (replicate 10240 (CHR ''a'')))]"
    "lacks RandomVerseField [(''padding'', JString (replicate 10240 (CHR ''a'')))]"
    "lacks TranslationField [(''random_verse'', JObject [(''book'', JString ''John'')]), (''id'', JNumber ''7'')]"
    "fields_storable [(''random_verse'', JObject [(''book'', JString ''John'')]), (''id'', JNumber ''7'')]"
    by (simp_all add: lacks_def fields_storable_def f storable_def del: fieldByName_def)
qed

text \<open>
  The body of the card.
\<close>

lemma Description_createVerseEmbed:
  "Description (createVerseEmbed w verse) =
     ''**Translation Details:**\<newline>''
     @ concat (map (\<lambda>kv. Sprintf_entry w (fst kv) (snd kv))
                (mapRange (range_order w 0) (Translation verse)))
     @ ''\<newline>**Random Verse:**\<newline>''
     @ concat (map (\<lambda>kv. Sprintf_entry w (fst kv) (snd kv))
                (mapRange (range_order w 1) (RandomVerse verse)))"
  by (simp add: createVerseEmbed_def Let_def foldl_WriteString) (simp add: WriteString_def)

lemma mapRange_Nil: "mapRange rank [] = []"
  by (simp add: mapRange_def)

section \<open>Properties of configuration loading\<close>

text \<open>
  C4, as the code has it: \<^verbatim>\<open>loadConfiguration\<close> first loads the settings file and fails
  when that fails, whatever the process environment holds. When the file loads, the
  credential and the debug flag are the settings \<^verbatim>\<open>DISCORD_BOT_TOKEN\<close> and \<^verbatim>\<open>DEBUG\<close> (the
  value of the process environment, else that of the file), and the call fails exactly
  when the credential is empty or absent.
\<close>

theorem loadConfiguration_result:
  "fst (loadConfiguration w) =
     (case read_env_file w EnvFileName of
        Inl err \<Rightarrow> Inl (EnvFileLoadError EnvFileName err)
      | Inr envMap \<Rightarrow>
          (if setting w envMap ''DISCORD_BOT_TOKEN'' = []
           then Inl (TokenRequired EnvFileName)
           else Inr \<lparr> DiscordToken = setting w envMap ''DISCORD_BOT_TOKEN'',
                     Debug = (setting w envMap ''DEBUG'' = ''true'') \<rparr>))"
  by (simp add: loadConfiguration_def godotenv_Load_def Let_def Getenv_loaded split: sum.split)

text \<open>
  C4 as stated fails: with a non-empty \<^verbatim>\<open>DISCORD_BOT_TOKEN\<close> in the process environment
  and no settings file to read, \<^verbatim>\<open>loadConfiguration\<close> returns an error.
\<close>

theorem loadConfiguration_env_file_required:
  "Getenv (environ world_without_env_file) ''DISCORD_BOT_TOKEN'' = ''abc''
   \<and> fst (loadConfiguration world_without_env_file)
     = Inl (EnvFileLoadError ''.env'' ''open .env: no such file or directory'')"
  by (simp add: loadConfiguration_def godotenv_Load_def Getenv_def EnvFileName_def
      world_without_env_file_def)

text \<open>
  C4 on a startup whose settings file supplies the credential, the debug flag being set
  in the process environment.
\<close>

theorem loadConfiguration_result_witness:
  "fst (loadConfiguration world_with_env_file) = Inr \<lparr> DiscordToken = ''abc'', Debug = True \<rparr>"
  using loadConfiguration_result [of world_with_env_file]
  by (simp add: world_with_env_file_def setting_def EnvFileName_def)

section \<open>Properties of the dispatcher\<close>

text \<open>
  C1: a message authored by the bot itself, a message whose content does not start with
  the prefix, and a message with no field after the prefix cause no send; every other
  message causes exactly one send.
\<close>

theorem messageCreate_send_count:
  "length (sends (messageCreate w s m)) =
     (if Author_ID m = State_User_ID s \<or> \<not> HasPrefix (Content m) Prefix
         \<or> Fields (TrimPrefix (Content m) Prefix) = []
      then 0 else 1)"
proof (cases "Author_ID m = State_User_ID s \<or> \<not> HasPrefix (Content m) Prefix
         \<or> Fields (TrimPrefix (Content m) Prefix) = []")
  case True
  then show ?thesis using sends_no_dispatch [of m s w] by simp
next
  case False
  then obtain command args where "Fields (TrimPrefix (Content m) Prefix) = command # args"
    by (cases "Fields (TrimPrefix (Content m) Prefix)") auto
  with False show ?thesis
    using sends_dispatch [of m s command args w] by (simp split: sum.split)
qed

text \<open>
  C1 on four messages: a command of a user (one send), a text without the prefix, a
  command of the bot itself and a bare prefix (no send).
\<close>

theorem messageCreate_send_count_witness:
  "length (sends (messageCreate example_world example_session (user_message ''!ping''))) = 1
   \<and> length (sends (messageCreate example_world example_session (user_message ''ping''))) = 0
   \<and> length (sends (messageCreate example_world example_session (bot_message ''!ping''))) = 0
   \<and> length (sends (messageCreate example_world example_session (user_message ''!  ''))) = 0"
  using messageCreate_send_count [of example_world example_session "user_message ''!ping''"]
    messageCreate_send_count [of example_world example_session "user_message ''ping''"]
    messageCreate_send_count [of example_world example_session "bot_message ''!ping''"]
    messageCreate_send_count [of example_world example_session "user_message ''!  ''"]
  by (simp add: user_message_def bot_message_def example_session_def
      TrimPrefix_def HasPrefix_def Prefix_def Fields_def IsSpace_def byte_def)

text \<open>
  C2, as the code has it: for every message that is not authored by the bot itself and
  whose first field after the prefix is \<^verbatim>\<open>verse\<close>, when \<^verbatim>\<open>getBibleVerse\<close> succeeds the only
  send is the rich card of the formatted payload, and when it fails the only send is the
  plain apology text, the error being logged and going no further.
\<close>

theorem verse_command:
  assumes "Author_ID m \<noteq> State_User_ID s"
    and "HasPrefix (Content m) Prefix"
    and "Fields (TrimPrefix (Content m) Prefix) = ''verse'' # args"
  shows "(case fst (getBibleVerse w) of
           Inr verse \<Rightarrow>
             sends (messageCreate w s m) =
               [ChannelMessageSendEmbed (ChannelID m) (createVerseEmbed w verse)]
         | Inl err \<Rightarrow>
             sends (messageCreate w s m) = [ChannelMessageSend (ChannelID m) apology_text]
             \<and> Log (VerseRetrievalError err) \<in> set (messageCreate w s m))"
proof (cases "fst (getBibleVerse w)")
  case (Inl err)
  then show ?thesis
    using sends_dispatch [OF assms, of w] by (simp add: messageCreate_dispatch [OF assms])
next
  case (Inr verse)
  then show ?thesis
    using sends_dispatch [OF assms, of w] by simp
qed

text \<open>
  C2 as stated fails on a message of the bot itself: its first field after the prefix is
  \<^verbatim>\<open>verse\<close> and the provider would succeed, yet nothing is sent.
\<close>

theorem verse_command_own_message:
  "HasPrefix (Content (bot_message ''!verse'')) Prefix
   \<and> Fields (TrimPrefix (Content (bot_message ''!verse'')) Prefix) = [''verse'']
   \<and> fst (getBibleVerse example_world) =
       Inr \<lparr> Translation = [(''name'', JString ''WEB'')], RandomVerse = [(''book'', JString ''John'')] \<rparr>
   \<and> sends (messageCreate example_world example_session (bot_message ''!verse'')) = []"
  using sends_no_dispatch [of "bot_message ''!verse''" example_session example_world]
  by (simp add: example_world_verse Fields_examples HasPrefix_examples bot_message_def
      example_session_def)

text \<open>
  C2 on a verse command of a user, with a provider that succeeds and with one that
  fails.
\<close>

theorem verse_command_witness:
  "sends (messageCreate example_world example_session (user_message ''!verse please'')) =
     [ChannelMessageSendEmbed ''general''
        (createVerseEmbed example_world
           \<lparr> Translation = [(''name'', JString ''WEB'')], RandomVerse = [(''book'', JString ''John'')] \<rparr>)]
   \<and> sends (messageCreate failing_world failing_session (user_message ''!verse'')) =
     [ChannelMessageSend ''general'' apology_text]"
  using verse_command [of "user_message ''!verse please''" example_session "[''please'']" example_world]
    verse_command [of "user_message ''!verse''" failing_session "[]" failing_world]
  by (simp add: example_world_verse failing_world_verse Fields_examples HasPrefix_examples
      user_message_def example_session_def failing_session_def)

text \<open>
  C7, as the code has it: the first field is compared with \<^verbatim>\<open>hello\<close>, \<^verbatim>\<open>ping\<close> and \<^verbatim>\<open>verse\<close>
  as it is written. For every message that is not authored by the bot itself, starts with
  the prefix and has a first field other than \<^verbatim>\<open>verse\<close>, the only send is a plain text: the
  greeting for \<^verbatim>\<open>hello\<close>, the pong for \<^verbatim>\<open>ping\<close>, and the unknown-command text for any other
  string.
\<close>

theorem unknown_command:
  assumes "Author_ID m \<noteq> State_User_ID s"
    and "HasPrefix (Content m) Prefix"
    and "Fields (TrimPrefix (Content m) Prefix) = command # args"
    and "command \<noteq> ''verse''"
  shows "sends (messageCreate w s m) =
     [ChannelMessageSend (ChannelID m)
        (if command = ''hello'' then greeting_text
         else if command = ''ping'' then pong_text
         else unknown_command_text)]"
  using sends_dispatch [OF assms(1-3), of w] assms(4) by simp

text \<open>
  C7 as stated fails on a message of the bot itself: it starts with the prefix and its
  first field is no command, yet nothing is sent.
\<close>

theorem unknown_command_own_message:
  "HasPrefix (Content (bot_message ''!bogus'')) Prefix
   \<and> Fields (TrimPrefix (Content (bot_message ''!bogus'')) Prefix) = [''bogus'']
   \<and> sends (messageCreate example_world example_session (bot_message ''!bogus'')) = []"
  using sends_no_dispatch [of "bot_message ''!bogus''" example_session example_world]
  by (simp add: Fields_examples HasPrefix_examples bot_message_def example_session_def)

text \<open>
  C7 on \<^verbatim>\<open>!Hello\<close> (a case variant of a command), \<^verbatim>\<open>!bogus\<close> and \<^verbatim>\<open>!hello\<close>.
\<close>

theorem unknown_command_witness:
  "sends (messageCreate example_world example_session (user_message ''!Hello'')) =
     [ChannelMessageSend ''general'' ''Unknown command. Try !hello, !ping, or !verse'']
   \<and> sends (messageCreate example_world example_session (user_message ''!bogus'')) =
     [ChannelMessageSend ''general'' ''Unknown command. Try !hello, !ping, or !verse'']
   \<and> sends (messageCreate example_world example_session (user_message ''!hello'')) =
     [ChannelMessageSend ''general'' greeting_text]"
  using unknown_command [of "user_message ''!Hello''" example_session "''Hello''" "[]" example_world]
    unknown_command [of "user_message ''!bogus''" example_session "''bogus''" "[]" example_world]
    unknown_command [of "user_message ''!hello''" example_session "''hello''" "[]" example_world]
  by (simp add: Fields_examples HasPrefix_examples user_message_def example_session_def
      unknown_command_text_def)

text \<open>
  C8: when the send of \<^verbatim>\<open>SafeSend\<close> or of \<^verbatim>\<open>SafeSendEmbed\<close> returns an error, the function
  logs it and returns; and apart from these log lines, the handler does the same with a
  session whose sends fail as with one whose sends succeed.
\<close>

theorem send_failure_swallowed:
  "(send_error s channelID content = Some err \<longrightarrow>
      SafeSend s channelID content =
        [ChannelMessageSend channelID content, Log (SendError channelID err)])
   \<and> (send_embed_error s channelID e = Some err \<longrightarrow>
      SafeSendEmbed s channelID e =
        [ChannelMessageSendEmbed channelID e, Log (EmbedSendError channelID err)])
   \<and> (State_User_ID s' = State_User_ID s \<longrightarrow>
      without_send_failure_logs (messageCreate w s' m)
        = without_send_failure_logs (messageCreate w s m))"
  by (simp add: SafeSend_def SafeSendEmbed_def without_logs_messageCreate)

text \<open>
  C8 on a session whose every send fails.
\<close>

theorem send_failure_swallowed_witness:
  "SafeSend failing_session ''general'' pong_text =
     [ChannelMessageSend ''general'' pong_text, Log (SendError ''general'' ''HTTP 403 Forbidden'')]
   \<and> SafeSendEmbed failing_session ''general'' (createVerseEmbed example_world \<lparr>Translation = [], RandomVerse = []\<rparr>) =
     [ChannelMessageSendEmbed ''general'' (createVerseEmbed example_world \<lparr>Translation = [], RandomVerse = []\<rparr>),
      Log (EmbedSendError ''general'' ''HTTP 403 Forbidden'')]
   \<and> without_send_failure_logs (messageCreate example_world failing_session (user_message ''!ping''))
     = without_send_failure_logs (messageCreate example_world example_session (user_message ''!ping''))"
  using send_failure_swallowed [of failing_session "''general''" pong_text "''HTTP 403 Forbidden''"
      "createVerseEmbed example_world \<lparr>Translation = [], RandomVerse = []\<rparr>"
      failing_session example_world "user_message ''!ping''"]
    send_failure_swallowed [of failing_session "''general''" pong_text "''HTTP 403 Forbidden''"
      "createVerseEmbed example_world \<lparr>Translation = [], RandomVerse = []\<rparr>"
      example_session example_world "user_message ''!ping''"]
  by (simp add: failing_session_def example_session_def)

text \<open>
  C9: every send of the handler goes to the channel of the inbound message.
\<close>

theorem sends_target_channel:
  "\<forall>e \<in> set (sends (messageCreate w s m)). send_channel e = Some (ChannelID m)"
proof (cases "Author_ID m = State_User_ID s \<or> \<not> HasPrefix (Content m) Prefix
         \<or> Fields (TrimPrefix (Content m) Prefix) = []")
  case True
  then show ?thesis using sends_no_dispatch [of m s w] by simp
next
  case False
  then obtain command args where "Fields (TrimPrefix (Content m) Prefix) = command # args"
    by (cases "Fields (TrimPrefix (Content m) Prefix)") auto
  with False show ?thesis
    using sends_dispatch [of m s command args w] by (simp split: sum.split)
qed

text \<open>
  C9 on a greeting.
\<close>

theorem sends_target_channel_witness:
  "sends (messageCreate example_world example_session (user_message ''!hello'')) =
     [ChannelMessageSend ''general'' greeting_text]
   \<and> send_channel (ChannelMessageSend ''general'' greeting_text) = Some ''general''
   \<and> ChannelID (user_message ''!hello'') = ''general''"
proof -
  have s: "sends (messageCreate example_world example_session (user_message ''!hello'')) =
     [ChannelMessageSend ''general'' greeting_text]"
    using sends_dispatch [of "user_message ''!hello''" example_session "''hello''" "[]" example_world]
    by (simp add: Fields_examples HasPrefix_examples user_message_def example_session_def)
  from sends_target_channel [of example_world example_session "user_message ''!hello''"] s
  show ?thesis by (simp add: user_message_def)
qed

section \<open>Properties of the formatter and of the provider client\<close>



text \<open>
  C6, as the code has it: \<^verbatim>\<open>getBibleVerse\<close> issues exactly one GET request, and returns an
  error in exactly four cases: the request fails, the status is not 200 (the error
  carries the code), reading the body fails, or the bytes read (the first 10 KiB of the
  body) do not decode; in every other case it returns the decoded payload.
\<close>

theorem getBibleVerse_outcomes:
  "requests (snd (getBibleVerse w)) = [Get BibleAPIURL]
   \<and> fst (getBibleVerse w) =
       (case http_Get w BibleAPIURL of
          Inl err \<Rightarrow> Inl (RequestFailed err)
        | Inr resp \<Rightarrow>
            if StatusCode resp \<noteq> 200 then Inl (BadStatus (StatusCode resp))
            else (case snd (ReadAllLimited (10 * 1024) (Body resp) []) of
                    Some err \<Rightarrow> Inl (ReadFailed err)
                  | None \<Rightarrow>
                      (case Unmarshal (take (10 * 1024) (delivered (Body resp))) of
                         Inl err \<Rightarrow> Inl (ParseFailed err)
                       | Inr verse \<Rightarrow> Inr verse)))"
proof (rule conjI)
  show "requests (snd (getBibleVerse w)) = [Get BibleAPIURL]"
    by (simp add: getBibleVerse_def requests_def split: sum.split prod.split option.split)
next
  show "fst (getBibleVerse w) =
       (case http_Get w BibleAPIURL of
          Inl err \<Rightarrow> Inl (RequestFailed err)
        | Inr resp \<Rightarrow>
            if StatusCode resp \<noteq> 200 then Inl (BadStatus (StatusCode resp))
            else (case snd (ReadAllLimited (10 * 1024) (Body resp) []) of
                    Some err \<Rightarrow> Inl (ReadFailed err)
                  | None \<Rightarrow>
                      (case Unmarshal (take (10 * 1024) (delivered (Body resp))) of
                         Inl err \<Rightarrow> Inl (ParseFailed err)
                       | Inr verse \<Rightarrow> Inr verse)))"
  proof (cases "http_Get w BibleAPIURL")
    case (Inl err)
    then show ?thesis by (simp add: getBibleVerse_def)
  next
    case (Inr resp)
    obtain body e where p: "ReadAllLimited (10 * 1024) (Body resp) [] = (body, e)" by force
    then have b: "body = take (10 * 1024) (delivered (Body resp))"
      using ReadAllLimited_delivered [of "10 * 1024" "Body resp" "[]"] by simp
    show ?thesis
      using Inr p b by (simp add: getBibleVerse_def split: option.split sum.split)
  qed
qed

text \<open>
  C6 as stated fails: the request succeeds, the status is 200 and the bytes of the body
  decode, but reading the body ends with an error, and \<^verbatim>\<open>getBibleVerse\<close> returns that
  error.
\<close>

theorem getBibleVerse_read_failure:
  "http_Get truncated_world BibleAPIURL = Inr truncated_response
   \<and> StatusCode truncated_response = 200
   \<and> delivered (Body truncated_response) = ''{}''
   \<and> Unmarshal ''{}'' = Inr \<lparr> Translation = [], RandomVerse = [] \<rparr>
   \<and> fst (getBibleVerse truncated_world) = Inl (ReadFailed ''unexpected EOF'')"
  by (simp add: Unmarshal_empty_object)
     (simp add: truncated_world_def truncated_response_def getBibleVerse_def)

text \<open>
  C6 on the response whose body breaks off.
\<close>

theorem getBibleVerse_outcomes_witness:
  "fst (getBibleVerse truncated_world) = Inl (ReadFailed ''unexpected EOF'')
   \<and> requests (snd (getBibleVerse truncated_world)) = [Get BibleAPIURL]"
  using getBibleVerse_outcomes [of truncated_world]
  by (simp add: truncated_world_def truncated_response_def)

text \<open>
  C3, as the code has it: for every response with status 200, \<^verbatim>\<open>getBibleVerse\<close> reads the
  first 10 KiB of the body and no more, and its result is decided by these bytes: the
  error of reading them, else the error of decoding them, else the payload decoded from
  them. A longer body is cut, not refused.
\<close>

theorem getBibleVerse_body_cap:
  assumes "http_Get w BibleAPIURL = Inr resp" and "StatusCode resp = 200"
  shows "fst (ReadAllLimited (10 * 1024) (Body resp) []) = take (10 * 1024) (delivered (Body resp))
   \<and> length (fst (ReadAllLimited (10 * 1024) (Body resp) [])) \<le> 10 * 1024
   \<and> fst (getBibleVerse w) =
       (case snd (ReadAllLimited (10 * 1024) (Body resp) []) of
          Some err \<Rightarrow> Inl (ReadFailed err)
        | None \<Rightarrow>
            (case Unmarshal (take (10 * 1024) (delivered (Body resp))) of
               Inl err \<Rightarrow> Inl (ParseFailed err)
             | Inr verse \<Rightarrow> Inr verse))"
proof -
  have r: "fst (ReadAllLimited (10 * 1024) (Body resp) []) = take (10 * 1024) (delivered (Body resp))"
    by (simp add: ReadAllLimited_delivered)
  obtain body err where p: "ReadAllLimited (10 * 1024) (Body resp) [] = (body, err)" by force
  with r have b: "body = take (10 * 1024) (delivered (Body resp))" by simp
  show ?thesis
    using assms p b r by (simp add: getBibleVerse_def split: option.split sum.split)
qed

text \<open>
  C3 as stated fails: a body of 10241 bytes, an empty object followed by spaces, exceeds
  the cap, and \<^verbatim>\<open>getBibleVerse\<close> returns a payload.
\<close>

theorem getBibleVerse_oversized_body:
  "http_Get padded_world BibleAPIURL = Inr padded_response
   \<and> StatusCode padded_response = 200
   \<and> length (delivered (Body padded_response)) = 10241
   \<and> fst (getBibleVerse padded_world) = Inr \<lparr> Translation = [], RandomVerse = [] \<rparr>"
proof -
  have g: "http_Get padded_world BibleAPIURL = Inr padded_response"
    by (simp add: padded_world_def)
  have d: "delivered (Body padded_response) = ''{}'' @ replicate 10239 (CHR '' '')"
    by (simp add: padded_response_def)
  have r: "ReadAllLimited (10 * 1024) (Body padded_response) []
      = (''{}'' @ replicate 10238 (CHR '' ''), None)"
    using take_padded by (simp add: padded_response_def)
  show ?thesis
    using g d r Unmarshal_padded [of 10238]
    by (simp add: getBibleVerse_def) (simp add: padded_response_def)
qed

text \<open>
  C3 on that response: the 10240 bytes read, and the result.
\<close>

theorem getBibleVerse_body_cap_witness:
  "fst (ReadAllLimited (10 * 1024) (Body padded_response) []) = ''{}'' @ replicate 10238 (CHR '' '')
   \<and> fst (getBibleVerse padded_world) = Inr \<lparr> Translation = [], RandomVerse = [] \<rparr>"
proof -
  have g: "http_Get padded_world BibleAPIURL = Inr padded_response"
    by (simp add: padded_world_def)
  have st: "StatusCode padded_response = 200"
    by (simp add: padded_response_def)
  have d: "delivered (Body padded_response) = ''{}'' @ replicate 10239 (CHR '' '')"
    by (simp add: padded_response_def)
  have r: "ReadAllLimited (10 * 1024) (Body padded_response) []
      = (''{}'' @ replicate 10238 (CHR '' ''), None)"
    using take_padded by (simp add: padded_response_def)
  from getBibleVerse_body_cap [OF g st] show ?thesis
    unfolding d r take_padded using Unmarshal_padded [of 10238] by simp
qed

section \<open>A response that lacks a field\<close>

text \<open>
  C10, as the code has it: for every verse command that is not authored by the bot
  itself, and every response with status 200 whose body is read without error, is no
  longer than the cap and is a JSON object, each member that goes to one of the two
  fields (its key equal to the tag, in any case) holding an object with numbers that
  convert or \<^verbatim>\<open>null\<close>: \<^verbatim>\<open>getBibleVerse\<close> succeeds, the only send is the rich card of the
  payload, and for each field the object lacks the mapping is empty and the body of the
  card has no line between the header of that field and what follows.
\<close>

theorem verse_command_missing_fields:
  assumes "Author_ID m \<noteq> State_User_ID s"
    and "HasPrefix (Content m) Prefix"
    and "Fields (TrimPrefix (Content m) Prefix) = ''verse'' # args"
    and "http_Get w BibleAPIURL = Inr resp"
    and "StatusCode resp = 200"
    and "snd (ReadAllLimited (10 * 1024) (Body resp) []) = None"
    and "length (delivered (Body resp)) \<le> 10 * 1024"
    and "json_parse (delivered (Body resp)) = Some (JObject members)"
    and "fields_storable members"
  shows "\<exists>verse.
     fst (getBibleVerse w) = Inr verse
     \<and> sends (messageCreate w s m) =
         [ChannelMessageSendEmbed (ChannelID m) (createVerseEmbed w verse)]
     \<and> (lacks TranslationField members \<longrightarrow>
          Translation verse = []
          \<and> Description (createVerseEmbed w verse) =
              ''**Translation Details:**\<newline>'' @ ''\<newline>**Random Verse:**\<newline>''
              @ concat (map (\<lambda>kv. Sprintf_entry w (fst kv) (snd kv))
                         (mapRange (range_order w 1) (RandomVerse verse))))
     \<and> (lacks RandomVerseField members \<longrightarrow>
          RandomVerse verse = []
          \<and> Description (createVerseEmbed w verse) =
              ''**Translation Details:**\<newline>''
              @ concat (map (\<lambda>kv. Sprintf_entry w (fst kv) (snd kv))
                         (mapRange (range_order w 0) (Translation verse)))
              @ ''\<newline>**Random Verse:**\<newline>'')"
proof -
  define verse where "verse = fst (decodeValue (JObject members))"
  have body: "fst (ReadAllLimited (10 * 1024) (Body resp) []) = delivered (Body resp)"
    using assms(7) by (simp add: ReadAllLimited_delivered)
  have u: "Unmarshal (delivered (Body resp)) = Inr verse"
    unfolding verse_def using assms(8,9) by (rule Unmarshal_object)
  obtain b e where p: "ReadAllLimited (10 * 1024) (Body resp) [] = (b, e)" by force
  with body assms(6) have "b = delivered (Body resp)" "e = None" by simp_all
  with p u assms(4,5) have g: "fst (getBibleVerse w) = Inr verse"
    by (simp add: getBibleVerse_def)
  have s: "sends (messageCreate w s m) =
      [ChannelMessageSendEmbed (ChannelID m) (createVerseEmbed w verse)]"
    using sends_dispatch [OF assms(1-3), of w] g by simp
  have t: "lacks TranslationField members \<Longrightarrow> Translation verse = []"
    unfolding verse_def by (rule decodeValue_lacks)
  have r: "lacks RandomVerseField members \<Longrightarrow> RandomVerse verse = []"
    unfolding verse_def by (rule decodeValue_lacks)
  have dt: "Translation verse = [] \<Longrightarrow> Description (createVerseEmbed w verse) =
              ''**Translation Details:**\<newline>'' @ ''\<newline>**Random Verse:**\<newline>''
              @ concat (map (\<lambda>kv. Sprintf_entry w (fst kv) (snd kv))
                         (mapRange (range_order w 1) (RandomVerse verse)))"
    by (simp add: Description_createVerseEmbed mapRange_Nil)
  have dr: "RandomVerse verse = [] \<Longrightarrow> Description (createVerseEmbed w verse) =
              ''**Translation Details:**\<newline>''
              @ concat (map (\<lambda>kv. Sprintf_entry w (fst kv) (snd kv))
                         (mapRange (range_order w 0) (Translation verse)))
              @ ''\<newline>**Random Verse:**\<newline>''"
    by (simp add: Description_createVerseEmbed mapRange_Nil)
  from g s t r dt dr show ?thesis by blast
qed

text \<open>
  C10 as stated fails on three inputs. An object that lacks \<^verbatim>\<open>random_verse\<close> and whose
  \<^verbatim>\<open>translation\<close> is a number: the decoding fails and the apology is sent. An object of
  10254 bytes that lacks both fields: it is cut at the cap, the decoding fails and the
  apology is sent. A verse command of the bot itself: nothing is sent.
\<close>

theorem verse_command_missing_fields_limits:
  "(json_parse (delivered (Body mistyped_response)) = Some (JObject [(''translation'', JNumber ''5'')])
    \<and> lacks RandomVerseField [(''translation'', JNumber ''5'')]
    \<and> fst (getBibleVerse mistyped_world) = Inl (ParseFailed (UnmarshalTypeError ''number''))
    \<and> sends (messageCreate mistyped_world example_session (user_message ''!verse''))
        = [ChannelMessageSend ''general'' apology_text])
   \<and> (json_parse (delivered (Body oversized_response))
        = Some (JObject [(''padding'', JString (replicate 10240 (CHR ''a'')))])
    \<and> lacks TranslationField [(''padding'', JString (replicate 10240 (CHR ''a'')))]
    \<and> lacks RandomVerseField [(''padding'', JString (replicate 10240 (CHR ''a'')))]
    \<and> fst (getBibleVerse oversized_world) = Inl (ParseFailed SyntaxError)
    \<and> sends (messageCreate oversized_world example_session (user_message ''!verse''))
        = [ChannelMessageSend ''general'' apology_text])
   \<and> (fst (getBibleVerse sparse_world)
        = Inr \<lparr> Translation = [], RandomVerse = [(''book'', JString ''John'')] \<rparr>
    \<and> sends (messageCreate sparse_world example_session (bot_message ''!verse'')) = [])"
proof -
  have u: "Author_ID (user_message ''!verse'') \<noteq> State_User_ID example_session"
    "HasPrefix (Content (user_message ''!verse'')) Prefix"
    "Fields (TrimPrefix (Content (user_message ''!verse'')) Prefix) = ''verse'' # []"
    "ChannelID (user_message ''!verse'') = ''general''"
    by (simp_all add: user_message_def example_session_def HasPrefix_examples Fields_examples)
  have d: "delivered (Body oversized_response) = oversized_object"
    by (simp add: oversized_response_def)
  have 1: "sends (messageCreate mistyped_world example_session (user_message ''!verse''))
        = [ChannelMessageSend ''general'' apology_text]"
    using sends_dispatch [OF u(1-3), of mistyped_world] by (simp add: getBibleVerse_mistyped u(4))
  have 2: "sends (messageCreate oversized_world example_session (user_message ''!verse''))
        = [ChannelMessageSend ''general'' apology_text]"
    using sends_dispatch [OF u(1-3), of oversized_world] by (simp add: getBibleVerse_oversized u(4))
  have 3: "sends (messageCreate sparse_world example_session (bot_message ''!verse'')) = []"
    using sends_no_dispatch [of "bot_message ''!verse''" example_session sparse_world]
    by (simp add: bot_message_def example_session_def)
  show ?thesis
    using 1 2 3 json_parse_examples(1) lacks_examples(1-3) getBibleVerse_mistyped
      getBibleVerse_oversized getBibleVerse_sparse json_parse_oversized
    by (simp only: d simp_thms)
qed

text \<open>
  C10 on an object with a verse and no translation.
\<close>

theorem verse_command_missing_fields_witness:
  "fst (getBibleVerse sparse_world)
     = Inr \<lparr> Translation = [], RandomVerse = [(''book'', JString ''John'')] \<rparr>
   \<and> sends (messageCreate sparse_world example_session (user_message ''!verse'')) =
       [ChannelMessageSendEmbed ''general''
          (createVerseEmbed sparse_world
             \<lparr> Translation = [], RandomVerse = [(''book'', JString ''John'')] \<rparr>)]
   \<and> Description (createVerseEmbed sparse_world
         \<lparr> Translation = [], RandomVerse = [(''book'', JString ''John'')] \<rparr>)
       = ''**Translation Details:**\<newline>\<newline>**Random Verse:**\<newline>- book: John\<newline>''"
proof -
  have u: "Author_ID (user_message ''!verse'') \<noteq> State_User_ID example_session"
    "HasPrefix (Content (user_message ''!verse'')) Prefix"
    "Fields (TrimPrefix (Content (user_message ''!verse'')) Prefix) = ''verse'' # []"
    by (simp_all add: user_message_def example_session_def HasPrefix_examples Fields_examples)
  have g: "http_Get sparse_world BibleAPIURL = Inr sparse_response"
    by (simp add: sparse_world_def)
  have st: "StatusCode sparse_response = 200"
    by (simp add: sparse_response_def)
  have rd: "snd (ReadAllLimited (10 * 1024) (Body sparse_response) []) = None"
    by (simp add: sparse_response_def)
  have len: "length (delivered (Body sparse_response)) \<le> 10 * 1024"
    by (simp add: sparse_response_def)
  have fv: "format_value sparse_world (JString x) = x" for x
    by (simp add: sparse_world_def example_world_def)
  have mr: "mapRange rank [(''book'', JString ''John'')] = [(''book'', JString ''John'')]" for rank
    by (simp add: mapRange_def)
  from verse_command_missing_fields [OF u g st rd len json_parse_examples(2) lacks_examples(5)]
  obtain verse where v: "fst (getBibleVerse sparse_world) = Inr verse"
    "sends (messageCreate sparse_world example_session (user_message ''!verse'')) =
         [ChannelMessageSendEmbed (ChannelID (user_message ''!verse'')) (createVerseEmbed sparse_world verse)]"
    "lacks TranslationField [(''random_verse'', JObject [(''book'', JString ''John'')]), (''id'', JNumber ''7'')] \<longrightarrow>
          Translation verse = []
          \<and> Description (createVerseEmbed sparse_world verse) =
              ''**Translation Details:**\<newline>'' @ ''\<newline>**Random Verse:**\<newline>''
              @ concat (map (\<lambda>kv. Sprintf_entry sparse_world (fst kv) (snd kv))
                         (mapRange (range_order sparse_world 1) (RandomVerse verse)))"
    by blast
  from v(1) have verse: "verse = \<lparr> Translation = [], RandomVerse = [(''book'', JString ''John'')] \<rparr>"
    by (simp add: getBibleVerse_sparse)
  from v(3) lacks_examples(4) show ?thesis
    using v(1,2) unfolding verse
    by (simp add: user_message_def mr Sprintf_entry_def fv)
qed

end
